theory Spec2Isabelle
  imports Main "HOL-Library.Word" "HOL-Library.Signed_Division"
begin

section \<open>Scalars, buffers and segments\<close>

text \<open>
  The text overlay element (\<^verbatim>\<open>gstbasetextoverlay.c\<close>) merges a video stream with a
  sparser text stream. This theory embeds its scheduling core: the text chain function
  that fills the one-place text slot, the video chain function that decides what happens
  to each video frame, the event handlers, the render cache and the placement function.

  \<^verbatim>\<open>gint\<close> is a 32-bit two's complement integer, \<^verbatim>\<open>guint64\<close> and
  \<^verbatim>\<open>GstClockTime\<close> are unsigned 64-bit integers. A \<^verbatim>\<open>gdouble\<close> is carried as its
  64-bit pattern; the arithmetic on doubles is left to the functions of \<open>externals\<close>.
\<close>

type_synonym gint = "32 word"
type_synonym guint = "32 word"
type_synonym guint64 = "64 word"
type_synonym GstClockTime = "64 word"
type_synonym gdouble = "64 word"

text \<open>\<^verbatim>\<open>#define GST_CLOCK_TIME_NONE ((GstClockTime) -1)\<close>; the source also writes the
  value as \<^verbatim>\<open>-1\<close> (\<^verbatim>\<open>stop != -1\<close>).\<close>

definition GST_CLOCK_TIME_NONE :: GstClockTime where
  "GST_CLOCK_TIME_NONE = - 1"

definition GST_CLOCK_TIME_IS_VALID :: "GstClockTime \<Rightarrow> bool" where
  "GST_CLOCK_TIME_IS_VALID t = (t \<noteq> GST_CLOCK_TIME_NONE)"

definition GST_SECOND :: GstClockTime where
  "GST_SECOND = 1000000000"

text \<open>Signed comparison and C division (truncating towards zero) on \<^verbatim>\<open>gint\<close>.\<close>

definition gint_div :: "gint \<Rightarrow> gint \<Rightarrow> gint" where
  "gint_div a b = word_of_int (sint a sdiv sint b)"

text \<open>\<^verbatim>\<open>#define CLAMP(x, low, high)
  (((x) > (high)) ? (high) : (((x) < (low)) ? (low) : (x)))\<close>, at type \<^verbatim>\<open>gint\<close>.\<close>

definition CLAMP :: "gint \<Rightarrow> gint \<Rightarrow> gint \<Rightarrow> gint" where
  "CLAMP x low high = (if high <s x then high else if x <s low then low else x)"

text \<open>A buffer: its two stamps and its bytes.\<close>

record GstBuffer =
  GST_BUFFER_TIMESTAMP :: GstClockTime
  GST_BUFFER_DURATION :: GstClockTime
  buffer_data :: string

definition GST_BUFFER_TIMESTAMP_IS_VALID :: "GstBuffer \<Rightarrow> bool" where
  "GST_BUFFER_TIMESTAMP_IS_VALID b = GST_CLOCK_TIME_IS_VALID (GST_BUFFER_TIMESTAMP b)"

definition GST_BUFFER_DURATION_IS_VALID :: "GstBuffer \<Rightarrow> bool" where
  "GST_BUFFER_DURATION_IS_VALID b = GST_CLOCK_TIME_IS_VALID (GST_BUFFER_DURATION b)"

datatype GstFormat =
  GST_FORMAT_UNDEFINED | GST_FORMAT_DEFAULT | GST_FORMAT_BYTES | GST_FORMAT_TIME
  | GST_FORMAT_BUFFERS | GST_FORMAT_PERCENT

text \<open>The integer fields of a \<^verbatim>\<open>GstSegment\<close> (its rates are doubles and are read
  only by the segment functions of the core library).\<close>

record GstSegment =
  seg_format :: GstFormat
  seg_base :: guint64
  seg_offset :: guint64
  seg_start :: guint64
  seg_stop :: guint64
  seg_time :: guint64
  seg_position :: guint64
  seg_duration :: guint64

datatype GstFlowReturn =
  GST_FLOW_OK | GST_FLOW_NOT_LINKED | GST_FLOW_FLUSHING | GST_FLOW_EOS
  | GST_FLOW_NOT_NEGOTIATED | GST_FLOW_ERROR | GST_FLOW_NOT_SUPPORTED

section \<open>The overlay object\<close>

text \<open>The alignment enumerations; \<open>HALIGN_OTHER\<close> and \<open>VALIGN_OTHER\<close> stand for any
  value that reaches the \<^verbatim>\<open>default:\<close> label of the switch in
  \<^verbatim>\<open>gst_base_text_overlay_get_pos\<close>.\<close>

datatype GstBaseTextOverlayHAlign =
  GST_BASE_TEXT_OVERLAY_HALIGN_LEFT
  | GST_BASE_TEXT_OVERLAY_HALIGN_CENTER
  | GST_BASE_TEXT_OVERLAY_HALIGN_RIGHT
  | GST_BASE_TEXT_OVERLAY_HALIGN_POS
  | HALIGN_OTHER

datatype GstBaseTextOverlayVAlign =
  GST_BASE_TEXT_OVERLAY_VALIGN_BASELINE
  | GST_BASE_TEXT_OVERLAY_VALIGN_BOTTOM
  | GST_BASE_TEXT_OVERLAY_VALIGN_TOP
  | GST_BASE_TEXT_OVERLAY_VALIGN_POS
  | GST_BASE_TEXT_OVERLAY_VALIGN_CENTER
  | VALIGN_OTHER

datatype GstBaseTextOverlayWrapMode =
  GST_BASE_TEXT_OVERLAY_WRAP_MODE_NONE
  | GST_BASE_TEXT_OVERLAY_WRAP_MODE_WORD
  | GST_BASE_TEXT_OVERLAY_WRAP_MODE_CHAR
  | GST_BASE_TEXT_OVERLAY_WRAP_MODE_WORD_CHAR

datatype GstBaseTextOverlayLineAlign =
  GST_BASE_TEXT_OVERLAY_LINE_ALIGN_LEFT
  | GST_BASE_TEXT_OVERLAY_LINE_ALIGN_CENTER
  | GST_BASE_TEXT_OVERLAY_LINE_ALIGN_RIGHT

text \<open>The rendered text image (\<^verbatim>\<open>overlay->text_image\<close>), a buffer of premultiplied
  ARGB pixels, and the composition built from it: one rectangle at a position.\<close>

type_synonym text_image = "8 word list"

record GstVideoOverlayComposition =
  rect_pixels :: text_image
  rect_x :: gint
  rect_y :: gint
  rect_width :: gint
  rect_height :: gint

text \<open>What leaves on the source pad: the frame as it came, the frame with the composition
  attached as metadata, or the frame with the composition blended into its pixels (after
  an optional shaded box, given by its corners before clamping).\<close>

datatype src_item =
  Unmodified GstBuffer
  | Attached GstBuffer GstVideoOverlayComposition
  | Blended GstBuffer "(gint \<times> gint \<times> gint \<times> gint) option" GstVideoOverlayComposition

text \<open>Calls on the Pango layout and context made by the initialiser and the property
  setter. They are logged with their data; what Pango does with them is outside this
  file.\<close>

datatype pango_call =
  Update_wrap_mode GstBaseTextOverlayWrapMode
  | Set_font_description string
  | Set_alignment GstBaseTextOverlayLineAlign
  | Update_render_mode bool

text \<open>
  The fields of \<^verbatim>\<open>GstBaseTextOverlay\<close> that the embedded functions read or write,
  under their names in the source (\<open>fps_n\<close> and \<open>fps_d\<close> are
  \<^verbatim>\<open>overlay->info.fps_n\<close> and \<^verbatim>\<open>overlay->info.fps_d\<close>). Three fields record
  what the functions do to the world outside the object:
  \<^item> \<open>cond_broadcasts\<close> counts the calls of \<^verbatim>\<open>g_cond_broadcast\<close> on
    \<^verbatim>\<open>overlay->cond\<close>;
  \<^item> \<open>rasterized\<close> lists the strings handed to
    \<^verbatim>\<open>gst_base_text_overlay_render_pangocairo\<close>, latest last;
  \<^item> \<open>srcpad\<close> lists what was pushed on the source pad, latest last.
\<close>

record GstBaseTextOverlay =
  segment :: GstSegment
  text_segment :: GstSegment
  text_buffer :: "GstBuffer option"
  text_linked :: bool
  video_flushing :: bool
  video_eos :: bool
  text_flushing :: bool
  text_eos :: bool
  fps_n :: gint
  fps_d :: gint
  width :: gint
  height :: gint
  attach_compo_to_buffer :: bool
  default_text :: "string option"
  want_shading :: bool
  shading_value :: guint
  halign :: GstBaseTextOverlayHAlign
  valign :: GstBaseTextOverlayVAlign
  xpad :: gint
  ypad :: gint
  deltax :: gint
  deltay :: gint
  xpos :: gdouble
  ypos :: gdouble
  wrap_mode :: GstBaseTextOverlayWrapMode
  line_align :: GstBaseTextOverlayLineAlign
  color :: guint
  outline_color :: guint
  silent :: bool
  wait_text :: bool
  auto_adjust_size :: bool
  use_vertical_render :: bool
  have_pango_markup :: bool
  need_render :: bool
  text_image :: "text_image option"
  image_width :: gint
  image_height :: gint
  baseline_y :: gint
  composition :: "GstVideoOverlayComposition option"
  layout :: "pango_call list"
  cond_broadcasts :: nat
  rasterized :: "string list"
  srcpad :: "src_item list"

section \<open>What the element calls but does not define\<close>

text \<open>
  The functions of the GStreamer core, GLib, Pango and the downstream peer that the
  embedded code calls. They are arguments of the model, so every theorem below holds for
  any implementation of them.
  \<^item> \<open>gst_segment_clip\<close> returns \<open>None\<close> for \<^verbatim>\<open>FALSE\<close> and the two clipped
    values for \<^verbatim>\<open>TRUE\<close>;
  \<^item> \<open>gst_pad_push\<close> is the flow return of the peer for the pushed item;
  \<^item> \<open>gst_video_frame_map\<close> tells whether the frame can be mapped;
  \<^item> \<open>get_text\<close> is the class method \<^verbatim>\<open>klass->get_text\<close>, \<open>None\<close> when the
    class has none; its result is \<open>None\<close> for a \<^verbatim>\<open>NULL\<close> string;
  \<^item> \<open>g_utf8_validate\<close> returns \<open>None\<close> for valid text and the index of the first
    invalid byte otherwise;
  \<^item> \<open>scaled_to_gint w x\<close> is \<^verbatim>\<open>(gint) (w * x)\<close> for a \<^verbatim>\<open>gint\<close> \<open>w\<close> and a
    double \<open>x\<close>;
  \<^item> \<open>pangocairo\<close> is the drawing part of
    \<^verbatim>\<open>gst_base_text_overlay_render_pangocairo\<close>: the pixels, the width, the height
    and the baseline of the image for a string under the current settings (the size is
    computed there in double arithmetic from the extents that Pango reports);
  \<^item> \<open>pango_font_description_from_string\<close> tells whether the description parses.
\<close>

record externals =
  gst_segment_clip ::
    "GstSegment \<Rightarrow> GstFormat \<Rightarrow> guint64 \<Rightarrow> guint64 \<Rightarrow> (guint64 \<times> guint64) option"
  gst_segment_to_running_time :: "GstSegment \<Rightarrow> GstFormat \<Rightarrow> guint64 \<Rightarrow> guint64"
  gst_segment_init :: "GstFormat \<Rightarrow> GstSegment"
  gst_util_uint64_scale_int :: "guint64 \<Rightarrow> gint \<Rightarrow> gint \<Rightarrow> guint64"
  gst_pad_push :: "src_item \<Rightarrow> GstFlowReturn"
  gst_video_frame_map :: "GstBuffer \<Rightarrow> bool"
  get_text :: "(GstBaseTextOverlay \<Rightarrow> GstBuffer \<Rightarrow> string option) option"
  g_utf8_validate :: "string \<Rightarrow> nat option"
  g_markup_escape_text :: "string \<Rightarrow> string"
  scaled_to_gint :: "gint \<Rightarrow> gdouble \<Rightarrow> gint"
  pangocairo :: "GstBaseTextOverlay \<Rightarrow> string \<Rightarrow> text_image \<times> gint \<times> gint \<times> gint"
  pango_font_description_from_string :: "string \<Rightarrow> bool"

text \<open>The memory of a new object is zeroed: a segment that was never initialised.\<close>

definition zeroed_segment :: GstSegment where
  "zeroed_segment =
     \<lparr>seg_format = GST_FORMAT_UNDEFINED, seg_base = 0, seg_offset = 0, seg_start = 0,
      seg_stop = 0, seg_time = 0, seg_position = 0, seg_duration = 0\<rparr>"

text \<open>\<^verbatim>\<open>gst_base_text_overlay_init\<close>, with the \<^verbatim>\<open>DEFAULT_PROP_\<close> values of the
  source; the fields it does not assign keep their zero. The double 0.5 is
  \<^verbatim>\<open>0x3FE0000000000000\<close>.\<close>

definition gst_base_text_overlay_init :: "externals \<Rightarrow> GstBaseTextOverlay" where
  "gst_base_text_overlay_init X =
     \<lparr>segment = gst_segment_init X GST_FORMAT_TIME,
      text_segment = zeroed_segment,
      text_buffer = None,
      text_linked = False,
      video_flushing = False,
      video_eos = False,
      text_flushing = False,
      text_eos = False,
      fps_n = 0,
      fps_d = 0,
      width = 0,
      height = 0,
      attach_compo_to_buffer = False,
      default_text = Some [],
      want_shading = False,
      shading_value = 80,
      halign = GST_BASE_TEXT_OVERLAY_HALIGN_CENTER,
      valign = GST_BASE_TEXT_OVERLAY_VALIGN_BASELINE,
      xpad = 25,
      ypad = 25,
      deltax = 0,
      deltay = 0,
      xpos = 0x3FE0000000000000,
      ypos = 0x3FE0000000000000,
      wrap_mode = GST_BASE_TEXT_OVERLAY_WRAP_MODE_WORD_CHAR,
      line_align = GST_BASE_TEXT_OVERLAY_LINE_ALIGN_CENTER,
      color = 0xffffffff,
      outline_color = 0xff000000,
      silent = False,
      wait_text = True,
      auto_adjust_size = True,
      use_vertical_render = False,
      have_pango_markup = False,
      need_render = True,
      text_image = None,
      image_width = 0,
      image_height = 0,
      baseline_y = 0,
      composition = None,
      layout = [Update_render_mode False],
      cond_broadcasts = 0,
      rasterized = [],
      srcpad = []\<rparr>"

section \<open>Placement\<close>

text \<open>\<^verbatim>\<open>gst_base_text_overlay_get_pos\<close>: the pair \<^verbatim>\<open>(*xpos, *ypos)\<close>.\<close>

definition gst_base_text_overlay_get_pos :: "externals \<Rightarrow> GstBaseTextOverlay \<Rightarrow> gint \<times> gint" where
  "gst_base_text_overlay_get_pos X overlay =
     (let w = image_width overlay;
          h = image_height overlay;
          ha = (if use_vertical_render overlay then GST_BASE_TEXT_OVERLAY_HALIGN_RIGHT
                else halign overlay);
          x = (case ha of
                 GST_BASE_TEXT_OVERLAY_HALIGN_LEFT \<Rightarrow> xpad overlay
               | GST_BASE_TEXT_OVERLAY_HALIGN_CENTER \<Rightarrow> gint_div (width overlay - w) 2
               | GST_BASE_TEXT_OVERLAY_HALIGN_RIGHT \<Rightarrow> width overlay - w - xpad overlay
               | GST_BASE_TEXT_OVERLAY_HALIGN_POS \<Rightarrow>
                   (let x1 = scaled_to_gint X (width overlay) (xpos overlay) - gint_div w 2;
                        x2 = CLAMP x1 0 (width overlay - w)
                    in if x2 <s 0 then 0 else x2)
               | HALIGN_OTHER \<Rightarrow> 0);
          x = x + deltax overlay;
          va = (if use_vertical_render overlay then GST_BASE_TEXT_OVERLAY_VALIGN_TOP
                else valign overlay);
          y = (case va of
                 GST_BASE_TEXT_OVERLAY_VALIGN_BOTTOM \<Rightarrow> height overlay - h - ypad overlay
               | GST_BASE_TEXT_OVERLAY_VALIGN_BASELINE \<Rightarrow> height overlay - (h + ypad overlay)
               | GST_BASE_TEXT_OVERLAY_VALIGN_TOP \<Rightarrow> ypad overlay
               | GST_BASE_TEXT_OVERLAY_VALIGN_POS \<Rightarrow>
                   (let y1 = scaled_to_gint X (height overlay) (ypos overlay) - gint_div h 2
                    in CLAMP y1 0 (height overlay - h))
               | GST_BASE_TEXT_OVERLAY_VALIGN_CENTER \<Rightarrow> gint_div (height overlay - h) 2
               | VALIGN_OTHER \<Rightarrow> ypad overlay);
          y = y + deltay overlay
      in (x, y))"

section \<open>The render cache\<close>

text \<open>\<^verbatim>\<open>gst_base_text_overlay_set_composition\<close>.\<close>

definition gst_base_text_overlay_set_composition ::
  "externals \<Rightarrow> GstBaseTextOverlay \<Rightarrow> GstBaseTextOverlay" where
  "gst_base_text_overlay_set_composition X overlay =
     (case gst_base_text_overlay_get_pos X overlay of (x, y) \<Rightarrow>
        (case text_image overlay of
           Some img \<Rightarrow>
             overlay\<lparr>composition :=
               Some \<lparr>rect_pixels = img, rect_x = x, rect_y = y,
                     rect_width = image_width overlay, rect_height = image_height overlay\<rparr>\<rparr>
         | None \<Rightarrow>
             (if composition overlay \<noteq> None then overlay\<lparr>composition := None\<rparr>
              else overlay)))"

text \<open>\<^verbatim>\<open>gst_base_text_overlay_render_pangocairo\<close>: the rasterizer is called, the new
  image replaces \<^verbatim>\<open>overlay->text_image\<close> and the composition is rebuilt.\<close>

definition gst_base_text_overlay_render_pangocairo ::
  "externals \<Rightarrow> GstBaseTextOverlay \<Rightarrow> string \<Rightarrow> GstBaseTextOverlay" where
  "gst_base_text_overlay_render_pangocairo X overlay string =
     (case pangocairo X overlay string of (img, w, h, bl) \<Rightarrow>
        gst_base_text_overlay_set_composition X
          (overlay\<lparr>text_image := Some img, image_width := w, image_height := h,
                   baseline_y := bl, rasterized := rasterized overlay @ [string]\<rparr>))"

text \<open>\<^verbatim>\<open>g_strndup\<close> and \<^verbatim>\<open>g_strdelimit\<close> on strings without a NUL byte.\<close>

definition g_strndup :: "string \<Rightarrow> int \<Rightarrow> string" where
  "g_strndup s n = take (nat n) s"

definition g_strdelimit :: "string \<Rightarrow> string \<Rightarrow> char \<Rightarrow> string" where
  "g_strdelimit s delimiters c = map (\<lambda>ch. if ch \<in> set delimiters then c else ch) s"

text \<open>\<^verbatim>\<open>gst_base_text_overlay_render_text\<close>; \<open>text = None\<close> is a \<^verbatim>\<open>NULL\<close>
  pointer.\<close>

definition gst_base_text_overlay_render_text ::
  "externals \<Rightarrow> GstBaseTextOverlay \<Rightarrow> string option \<Rightarrow> int \<Rightarrow> GstBaseTextOverlay" where
  "gst_base_text_overlay_render_text X overlay text textlen =
     (if \<not> need_render overlay then overlay
      else
        (let string =
               (case text of
                  Some t \<Rightarrow> g_strndup t (if textlen < 0 then int (length t) else textlen)
                | None \<Rightarrow> '' '');
             string = g_strdelimit string [CHR 0x0D, CHR 0x09] CHR '' ''
         in (gst_base_text_overlay_render_pangocairo X overlay string)\<lparr>need_render := False\<rparr>))"

section \<open>Pushing a frame\<close>

definition pad_push :: "externals \<Rightarrow> GstBaseTextOverlay \<Rightarrow> src_item \<Rightarrow> GstFlowReturn \<times> GstBaseTextOverlay" where
  "pad_push X overlay item = (gst_pad_push X item, overlay\<lparr>srcpad := srcpad overlay @ [item]\<rparr>)"

text \<open>The box handed to \<^verbatim>\<open>gst_base_text_overlay_shade_background\<close> when shading
  is wanted: \<^verbatim>\<open>xpos, xpos + image_width, ypos, ypos + image_height\<close>.\<close>

definition shaded_box :: "externals \<Rightarrow> GstBaseTextOverlay \<Rightarrow> (gint \<times> gint \<times> gint \<times> gint) option" where
  "shaded_box X overlay =
     (if want_shading overlay then
        (case gst_base_text_overlay_get_pos X overlay of (x, y) \<Rightarrow>
           Some (x, x + image_width overlay, y, y + image_height overlay))
      else None)"

text \<open>\<^verbatim>\<open>gst_base_text_overlay_push_frame\<close>, with no reconfiguration pending on the
  source pad. A frame that cannot be mapped is dropped and the call succeeds.\<close>

definition gst_base_text_overlay_push_frame ::
  "externals \<Rightarrow> GstBaseTextOverlay \<Rightarrow> GstBuffer \<Rightarrow> GstFlowReturn \<times> GstBaseTextOverlay" where
  "gst_base_text_overlay_push_frame X overlay video_frame =
     (case composition overlay of
        None \<Rightarrow> pad_push X overlay (Unmodified video_frame)
      | Some compo \<Rightarrow>
          if attach_compo_to_buffer overlay then pad_push X overlay (Attached video_frame compo)
          else if \<not> gst_video_frame_map X video_frame then (GST_FLOW_OK, overlay)
          else pad_push X overlay (Blended video_frame (shaded_box X overlay) compo))"

section \<open>The text slot\<close>

definition GST_BASE_TEXT_OVERLAY_BROADCAST :: "GstBaseTextOverlay \<Rightarrow> GstBaseTextOverlay" where
  "GST_BASE_TEXT_OVERLAY_BROADCAST overlay =
     overlay\<lparr>cond_broadcasts := Suc (cond_broadcasts overlay)\<rparr>"

text \<open>\<^verbatim>\<open>gst_base_text_overlay_pop_text\<close>, called with the lock held.\<close>

definition gst_base_text_overlay_pop_text :: "GstBaseTextOverlay \<Rightarrow> GstBaseTextOverlay" where
  "gst_base_text_overlay_pop_text overlay =
     GST_BASE_TEXT_OVERLAY_BROADCAST
       (if text_buffer overlay \<noteq> None then overlay\<lparr>text_buffer := None\<rparr> else overlay)"

text \<open>
  A chain function runs under the object lock and may park its thread in
  \<^verbatim>\<open>g_cond_wait\<close>. One run of it up to the next such point is a function to an
  \<open>outcome\<close>: it returned a flow value, it released the lock and jumps back to its
  entry label at once (\<open>Again\<close>), or it waits on the condition (\<open>Waiting\<close>); the
  last two carry the local variables that are still live. A waiting thread continues,
  with the state it finds when it is woken, by the function given with each chain
  function below.
\<close>

datatype 'l outcome =
  Returned GstFlowReturn GstBaseTextOverlay
  | Again 'l GstBaseTextOverlay
  | Waiting 'l GstBaseTextOverlay

fun overlay_of :: "'l outcome \<Rightarrow> GstBaseTextOverlay" where
  "overlay_of (Returned r overlay) = overlay"
| "overlay_of (Again l overlay) = overlay"
| "overlay_of (Waiting l overlay) = overlay"

text \<open>
  \<^verbatim>\<open>gst_base_text_overlay_text_chain\<close> from its \<^verbatim>\<open>while (overlay->text_buffer != NULL)\<close>
  on: the thread waits while the slot is occupied, and stores the buffer otherwise.
  The live locals are the buffer and \<^verbatim>\<open>clip_start\<close>.
\<close>

definition text_chain_queue ::
  "GstBaseTextOverlay \<Rightarrow> GstBuffer \<Rightarrow> guint64 \<Rightarrow> (GstBuffer \<times> guint64) outcome" where
  "text_chain_queue overlay buffer clip_start =
     (if text_buffer overlay \<noteq> None then Waiting (buffer, clip_start) overlay
      else
        (let overlay =
               (if GST_BUFFER_TIMESTAMP_IS_VALID buffer then
                  overlay\<lparr>text_segment := (text_segment overlay)\<lparr>seg_position := clip_start\<rparr>\<rparr>
                else overlay);
             overlay = overlay\<lparr>text_buffer := Some buffer\<rparr>;
             overlay = overlay\<lparr>need_render := True\<rparr>;
             overlay = GST_BASE_TEXT_OVERLAY_BROADCAST overlay
         in Returned GST_FLOW_OK overlay))"

text \<open>The text thread returning from \<^verbatim>\<open>GST_BASE_TEXT_OVERLAY_WAIT\<close>: the flushing
  flag is looked at first, then the loop condition again.\<close>

definition text_chain_wake ::
  "GstBaseTextOverlay \<Rightarrow> GstBuffer \<times> guint64 \<Rightarrow> (GstBuffer \<times> guint64) outcome" where
  "text_chain_wake overlay l =
     (if text_flushing overlay then Returned GST_FLOW_FLUSHING overlay
      else text_chain_queue overlay (fst l) (snd l))"

text \<open>\<^verbatim>\<open>gst_base_text_overlay_text_chain\<close> from its entry.\<close>

definition gst_base_text_overlay_text_chain ::
  "externals \<Rightarrow> GstBaseTextOverlay \<Rightarrow> GstBuffer \<Rightarrow> (GstBuffer \<times> guint64) outcome" where
  "gst_base_text_overlay_text_chain X overlay buffer =
     (if text_flushing overlay then Returned GST_FLOW_FLUSHING overlay
      else if text_eos overlay then Returned GST_FLOW_EOS overlay
      else
        (case
           (if GST_BUFFER_TIMESTAMP_IS_VALID buffer then
              (let stop =
                     (if GST_BUFFER_DURATION_IS_VALID buffer then
                        GST_BUFFER_TIMESTAMP buffer + GST_BUFFER_DURATION buffer
                      else GST_CLOCK_TIME_NONE)
               in case gst_segment_clip X (text_segment overlay) GST_FORMAT_TIME
                         (GST_BUFFER_TIMESTAMP buffer) stop of
                    None \<Rightarrow> (False, 0, 0)
                  | Some (cs, ce) \<Rightarrow> (True, cs, ce))
            else (True, 0, 0))
         of (in_seg, clip_start, clip_stop) \<Rightarrow>
           if in_seg then
             (let buffer =
                    (if GST_BUFFER_TIMESTAMP_IS_VALID buffer then
                       buffer\<lparr>GST_BUFFER_TIMESTAMP := clip_start\<rparr>
                     else if GST_BUFFER_DURATION_IS_VALID buffer then
                       buffer\<lparr>GST_BUFFER_DURATION := clip_stop - clip_start\<rparr>
                     else buffer)
              in text_chain_queue overlay buffer clip_start)
           else Returned GST_FLOW_OK overlay))"

section \<open>The video chain\<close>

text \<open>The locals of \<^verbatim>\<open>gst_base_text_overlay_video_chain\<close> that are live at the
  label \<^verbatim>\<open>wait_for_text_buf\<close>.\<close>

record video_locals =
  vc_buffer :: GstBuffer
  vc_start :: guint64
  vc_stop :: guint64
  vc_clip_start :: guint64

definition update_position :: "GstBaseTextOverlay \<Rightarrow> guint64 \<Rightarrow> GstBaseTextOverlay" where
  "update_position overlay clip_start =
     overlay\<lparr>segment := (segment overlay)\<lparr>seg_position := clip_start\<rparr>\<rparr>"

text \<open>The loop \<^verbatim>\<open>while (!g_utf8_validate (in_text, in_size, &end) && end) *end = '*';\<close>.
  Every round turns the first invalid byte into a star, so it runs at most once per
  byte; the bound is the first argument.\<close>

fun replace_invalid_utf8 :: "externals \<Rightarrow> nat \<Rightarrow> string \<Rightarrow> string" where
  "replace_invalid_utf8 X 0 in_text = in_text"
| "replace_invalid_utf8 X (Suc n) in_text =
     (case g_utf8_validate X in_text of
        None \<Rightarrow> in_text
      | Some i \<Rightarrow> replace_invalid_utf8 X n (in_text[i := CHR ''*'']))"

text \<open>The loop that steps \<^verbatim>\<open>text_len\<close> back over trailing line ends.\<close>

fun strip_line_ends :: "string \<Rightarrow> nat \<Rightarrow> nat" where
  "strip_line_ends text 0 = 0"
| "strip_line_ends text (Suc n) =
     (if text ! n = CHR 0x0A \<or> text ! n = CHR 0x0D then strip_line_ends text n else Suc n)"

text \<open>The text of the queued buffer is rendered (if the cache is dirty).\<close>

definition render_text_buffer ::
  "externals \<Rightarrow> GstBaseTextOverlay \<Rightarrow> GstBuffer \<Rightarrow> GstBaseTextOverlay" where
  "render_text_buffer X overlay tb =
     (let in_text = buffer_data tb;
          in_size = length in_text
      in if in_size > 0 then
           (let in_text =
                  (if g_utf8_validate X in_text \<noteq> None then
                     replace_invalid_utf8 X in_size in_text
                   else in_text);
                text =
                  (if have_pango_markup overlay then g_strndup in_text (int in_size)
                   else g_markup_escape_text X in_text)
            in if text \<noteq> [] then
                 gst_base_text_overlay_render_text X overlay (Some text)
                   (int (strip_line_ends text (length text)))
               else gst_base_text_overlay_render_text X overlay (Some '' '') 1)
         else gst_base_text_overlay_render_text X overlay (Some '' '') 1)"

text \<open>
  One pass of \<^verbatim>\<open>gst_base_text_overlay_video_chain\<close> from the label
  \<^verbatim>\<open>wait_for_text_buf\<close>, where the lock is taken.
\<close>

definition wait_for_text_buf ::
  "externals \<Rightarrow> GstBaseTextOverlay \<Rightarrow> video_locals \<Rightarrow> video_locals outcome" where
  "wait_for_text_buf X overlay l =
     (let buffer = vc_buffer l; start = vc_start l; stop = vc_stop l;
          clip_start = vc_clip_start l
      in
      if video_flushing overlay then Returned GST_FLOW_FLUSHING overlay
      else if video_eos overlay then Returned GST_FLOW_EOS overlay
      else if silent overlay then
        (case pad_push X overlay (Unmodified buffer) of (ret, overlay) \<Rightarrow>
           Returned ret (update_position overlay clip_start))
      else if \<not> text_linked overlay then
        (let text = (case get_text X of Some f \<Rightarrow> f overlay buffer
                     | None \<Rightarrow> default_text overlay)
         in case
              (case text of
                 None \<Rightarrow> pad_push X overlay (Unmodified buffer)
               | Some t \<Rightarrow>
                   if t \<noteq> [] then
                     gst_base_text_overlay_push_frame X
                       (gst_base_text_overlay_render_text X overlay text (- 1)) buffer
                   else pad_push X overlay (Unmodified buffer))
            of (ret, overlay) \<Rightarrow> Returned ret (update_position overlay clip_start))
      else
        (case text_buffer overlay of
           Some tb \<Rightarrow>
             (let valid_text_time =
                    (GST_BUFFER_TIMESTAMP_IS_VALID tb \<and> GST_BUFFER_DURATION_IS_VALID tb);
                  pop_text = (\<not> valid_text_time);
                  text_start =
                    (if valid_text_time then GST_BUFFER_TIMESTAMP tb else GST_CLOCK_TIME_NONE);
                  text_end =
                    (if valid_text_time then text_start + GST_BUFFER_DURATION tb
                     else GST_CLOCK_TIME_NONE);
                  vid_running_time =
                    gst_segment_to_running_time X (segment overlay) GST_FORMAT_TIME start;
                  vid_running_time_end =
                    gst_segment_to_running_time X (segment overlay) GST_FORMAT_TIME stop;
                  text_running_time =
                    (if valid_text_time then
                       gst_segment_to_running_time X (text_segment overlay) GST_FORMAT_TIME
                         text_start
                     else GST_CLOCK_TIME_NONE);
                  text_running_time_end =
                    (if valid_text_time then
                       gst_segment_to_running_time X (text_segment overlay) GST_FORMAT_TIME
                         text_end
                     else GST_CLOCK_TIME_NONE)
              in
              if valid_text_time \<and> text_running_time_end \<le> vid_running_time then
                Again l (gst_base_text_overlay_pop_text overlay)
              else
                (case
                   (if valid_text_time \<and> vid_running_time_end \<le> text_running_time then
                      (case pad_push X overlay (Unmodified buffer) of (ret, overlay) \<Rightarrow>
                         (ret, overlay, pop_text))
                    else
                      (case gst_base_text_overlay_push_frame X
                              (render_text_buffer X overlay tb) buffer of
                         (ret, overlay) \<Rightarrow>
                           (ret, overlay,
                            if valid_text_time \<and> text_running_time_end \<le> vid_running_time_end
                            then True else pop_text)))
                 of (ret, overlay, pop_text) \<Rightarrow>
                   Returned ret
                     (update_position
                        (if pop_text then gst_base_text_overlay_pop_text overlay else overlay)
                        clip_start)))
         | None \<Rightarrow>
             (let wait_for_text = True;
                  wait_for_text = (if text_eos overlay then False else wait_for_text);
                  wait_for_text = (if \<not> wait_text overlay then False else wait_for_text);
                  wait_for_text =
                    (if seg_format (text_segment overlay) = GST_FORMAT_TIME then
                       (let vid_running_time =
                              gst_segment_to_running_time X (segment overlay) GST_FORMAT_TIME
                                (GST_BUFFER_TIMESTAMP buffer);
                            text_start_running_time =
                              gst_segment_to_running_time X (text_segment overlay)
                                GST_FORMAT_TIME (seg_start (text_segment overlay));
                            text_position_running_time =
                              gst_segment_to_running_time X (text_segment overlay)
                                GST_FORMAT_TIME (seg_position (text_segment overlay))
                        in if (GST_CLOCK_TIME_IS_VALID text_start_running_time \<and>
                               vid_running_time < text_start_running_time) \<or>
                              (GST_CLOCK_TIME_IS_VALID text_position_running_time \<and>
                               vid_running_time < text_position_running_time)
                           then False else wait_for_text)
                     else wait_for_text)
              in if wait_for_text then Waiting l overlay
                 else
                   (case pad_push X overlay (Unmodified buffer) of (ret, overlay) \<Rightarrow>
                      Returned ret (update_position overlay clip_start)))))"

text \<open>
  The passes of one thread follow each other while the pass ends in
  \<^verbatim>\<open>goto wait_for_text_buf\<close>. A pass jumps back only after it has emptied the slot,
  and a pass that finds the slot empty never jumps back, so with no other thread in
  between the second pass is the last.
\<close>

function video_chain_loop ::
  "externals \<Rightarrow> GstBaseTextOverlay \<Rightarrow> video_locals \<Rightarrow> video_locals outcome" where
  "video_chain_loop X overlay l =
     (case wait_for_text_buf X overlay l of
        Again l' overlay' \<Rightarrow> video_chain_loop X overlay' l'
      | Returned r overlay' \<Rightarrow> Returned r overlay'
      | Waiting l' overlay' \<Rightarrow> Waiting l' overlay')"
  by pat_completeness auto
termination
proof (relation "measure (\<lambda>(X, overlay, l). if text_buffer overlay = None then 0 else 1)")
  show "wf (measure (\<lambda>(X, overlay, l). if text_buffer overlay = None then 0 else (1::nat)))"
    by simp
next
  fix X :: externals and overlay overlay' :: GstBaseTextOverlay and l l' :: video_locals
  assume a: "wait_for_text_buf X overlay l = Again l' overlay'"
  have "text_buffer overlay \<noteq> None"
    using a
    by (auto simp add: wait_for_text_buf_def Let_def
          split: if_splits option.splits prod.splits)
  moreover have "text_buffer overlay' = None"
    using a
    by (auto simp add: wait_for_text_buf_def Let_def gst_base_text_overlay_pop_text_def
          GST_BASE_TEXT_OVERLAY_BROADCAST_def
          split: if_splits option.splits prod.splits)
  ultimately show
    "((X, overlay', l'), (X, overlay, l))
       \<in> measure (\<lambda>(X, overlay, l). if text_buffer overlay = None then 0 else 1)"
    by simp
qed

declare video_chain_loop.simps [simp del]

text \<open>\<^verbatim>\<open>gst_base_text_overlay_video_chain\<close> from its entry: the checks and the
  clipping of the frame, then the loop. The video thread woken from its wait continues
  with \<open>video_chain_loop\<close> on the state it finds.\<close>

definition gst_base_text_overlay_video_chain ::
  "externals \<Rightarrow> GstBaseTextOverlay \<Rightarrow> GstBuffer \<Rightarrow> video_locals outcome" where
  "gst_base_text_overlay_video_chain X overlay buffer =
     (if \<not> GST_BUFFER_TIMESTAMP_IS_VALID buffer then Returned GST_FLOW_OK overlay
      else
        (let start = GST_BUFFER_TIMESTAMP buffer;
             stop =
               (if \<not> GST_BUFFER_DURATION_IS_VALID buffer then GST_CLOCK_TIME_NONE
                else start + GST_BUFFER_DURATION buffer)
         in if stop = GST_CLOCK_TIME_NONE \<and> start < seg_start (segment overlay) then
              Returned GST_FLOW_OK overlay
            else
              (case gst_segment_clip X (segment overlay) GST_FORMAT_TIME start stop of
                 None \<Rightarrow> Returned GST_FLOW_OK overlay
               | Some (clip_start, clip_stop) \<Rightarrow>
                   (let buffer =
                          (if clip_start \<noteq> start \<or> (stop \<noteq> - 1 \<and> clip_stop \<noteq> stop) then
                             (let b = buffer\<lparr>GST_BUFFER_TIMESTAMP := clip_start\<rparr>
                              in if stop \<noteq> - 1 then
                                   b\<lparr>GST_BUFFER_DURATION := clip_stop - clip_start\<rparr>
                                 else b)
                           else buffer);
                        stop =
                          (if stop = - 1 then
                             (if fps_n overlay \<noteq> 0 \<and> fps_d overlay \<noteq> 0 then
                                start + gst_util_uint64_scale_int X GST_SECOND
                                          (fps_d overlay) (fps_n overlay)
                              else start + 1)
                           else stop)
                    in video_chain_loop X overlay
                         \<lparr>vc_buffer = buffer, vc_start = start, vc_stop = stop,
                          vc_clip_start = clip_start\<rparr>))))"

section \<open>Events, state changes and properties\<close>

text \<open>The events that \<^verbatim>\<open>gst_base_text_overlay_text_event\<close> handles itself; a caps
  event carries the format string, a gap event its start and duration.\<close>

datatype text_event =
  TEXT_EVENT_CAPS string
  | TEXT_EVENT_SEGMENT GstSegment
  | TEXT_EVENT_GAP GstClockTime GstClockTime
  | TEXT_EVENT_FLUSH_STOP
  | TEXT_EVENT_FLUSH_START
  | TEXT_EVENT_EOS
  | TEXT_EVENT_OTHER

definition gst_base_text_overlay_text_event ::
  "externals \<Rightarrow> GstBaseTextOverlay \<Rightarrow> text_event \<Rightarrow> GstBaseTextOverlay" where
  "gst_base_text_overlay_text_event X overlay event =
     (case event of
        TEXT_EVENT_CAPS format \<Rightarrow> overlay\<lparr>have_pango_markup := (format = ''pango-markup'')\<rparr>
      | TEXT_EVENT_SEGMENT seg \<Rightarrow>
          (let overlay = overlay\<lparr>text_eos := False\<rparr>;
               overlay =
                 (if seg_format seg = GST_FORMAT_TIME then overlay\<lparr>text_segment := seg\<rparr>
                  else overlay)
           in GST_BASE_TEXT_OVERLAY_BROADCAST overlay)
      | TEXT_EVENT_GAP start duration \<Rightarrow>
          (let start = (if GST_CLOCK_TIME_IS_VALID duration then start + duration else start);
               overlay =
                 overlay\<lparr>text_segment := (text_segment overlay)\<lparr>seg_position := start\<rparr>\<rparr>
           in GST_BASE_TEXT_OVERLAY_BROADCAST overlay)
      | TEXT_EVENT_FLUSH_STOP \<Rightarrow>
          (let overlay = overlay\<lparr>text_flushing := False\<rparr>;
               overlay = overlay\<lparr>text_eos := False\<rparr>;
               overlay = gst_base_text_overlay_pop_text overlay
           in overlay\<lparr>text_segment := gst_segment_init X GST_FORMAT_TIME\<rparr>)
      | TEXT_EVENT_FLUSH_START \<Rightarrow>
          GST_BASE_TEXT_OVERLAY_BROADCAST (overlay\<lparr>text_flushing := True\<rparr>)
      | TEXT_EVENT_EOS \<Rightarrow> GST_BASE_TEXT_OVERLAY_BROADCAST (overlay\<lparr>text_eos := True\<rparr>)
      | TEXT_EVENT_OTHER \<Rightarrow> overlay)"

text \<open>The events of \<^verbatim>\<open>gst_base_text_overlay_video_event\<close> apart from caps, whose
  negotiation is not part of this theory.\<close>

datatype video_event =
  VIDEO_EVENT_SEGMENT GstSegment
  | VIDEO_EVENT_EOS
  | VIDEO_EVENT_FLUSH_START
  | VIDEO_EVENT_FLUSH_STOP
  | VIDEO_EVENT_OTHER

definition gst_base_text_overlay_video_event ::
  "externals \<Rightarrow> GstBaseTextOverlay \<Rightarrow> video_event \<Rightarrow> GstBaseTextOverlay" where
  "gst_base_text_overlay_video_event X overlay event =
     (case event of
        VIDEO_EVENT_SEGMENT seg \<Rightarrow>
          (if seg_format seg = GST_FORMAT_TIME then overlay\<lparr>segment := seg\<rparr> else overlay)
      | VIDEO_EVENT_EOS \<Rightarrow> overlay\<lparr>video_eos := True\<rparr>
      | VIDEO_EVENT_FLUSH_START \<Rightarrow>
          GST_BASE_TEXT_OVERLAY_BROADCAST (overlay\<lparr>video_flushing := True\<rparr>)
      | VIDEO_EVENT_FLUSH_STOP \<Rightarrow>
          (let overlay = overlay\<lparr>video_flushing := False\<rparr>;
               overlay = overlay\<lparr>video_eos := False\<rparr>
           in overlay\<lparr>segment := gst_segment_init X GST_FORMAT_TIME\<rparr>)
      | VIDEO_EVENT_OTHER \<Rightarrow> overlay)"

datatype GstStateChange =
  GST_STATE_CHANGE_NULL_TO_READY | GST_STATE_CHANGE_READY_TO_PAUSED
  | GST_STATE_CHANGE_PAUSED_TO_PLAYING | GST_STATE_CHANGE_PLAYING_TO_PAUSED
  | GST_STATE_CHANGE_PAUSED_TO_READY | GST_STATE_CHANGE_READY_TO_NULL

text \<open>\<^verbatim>\<open>gst_base_text_overlay_change_state\<close>; \<open>parent_failed\<close> tells whether the
  parent class answered \<^verbatim>\<open>GST_STATE_CHANGE_FAILURE\<close>.\<close>

definition gst_base_text_overlay_change_state ::
  "externals \<Rightarrow> GstBaseTextOverlay \<Rightarrow> GstStateChange \<Rightarrow> bool \<Rightarrow> GstBaseTextOverlay" where
  "gst_base_text_overlay_change_state X overlay transition parent_failed =
     (let overlay =
            (case transition of
               GST_STATE_CHANGE_PAUSED_TO_READY \<Rightarrow>
                 gst_base_text_overlay_pop_text
                   (overlay\<lparr>text_flushing := True, video_flushing := True\<rparr>)
             | _ \<Rightarrow> overlay)
      in if parent_failed then overlay
         else
           (case transition of
              GST_STATE_CHANGE_READY_TO_PAUSED \<Rightarrow>
                overlay\<lparr>text_flushing := False, video_flushing := False, video_eos := False,
                        text_eos := False,
                        segment := gst_segment_init X GST_FORMAT_TIME,
                        text_segment := gst_segment_init X GST_FORMAT_TIME\<rparr>
            | _ \<Rightarrow> overlay))"

text \<open>A property identifier with the value to set; \<open>PROP_SHADOW\<close> and any other
  identifier have no case in the setter and reach its \<^verbatim>\<open>default:\<close> label.\<close>

datatype property =
  PROP_TEXT "string option"
  | PROP_SHADING bool
  | PROP_SHADING_VALUE guint
  | PROP_HALIGNMENT GstBaseTextOverlayHAlign
  | PROP_VALIGNMENT GstBaseTextOverlayVAlign
  | PROP_XPAD gint
  | PROP_YPAD gint
  | PROP_DELTAX gint
  | PROP_DELTAY gint
  | PROP_XPOS gdouble
  | PROP_YPOS gdouble
  | PROP_WRAP_MODE GstBaseTextOverlayWrapMode
  | PROP_FONT_DESC string
  | PROP_SILENT bool
  | PROP_LINE_ALIGNMENT GstBaseTextOverlayLineAlign
  | PROP_WAIT_TEXT bool
  | PROP_AUTO_ADJUST_SIZE bool
  | PROP_VERTICAL_RENDER bool
  | PROP_COLOR guint
  | PROP_SHADOW
  | PROP_OUTLINE_COLOR guint
  | PROP_OTHER nat

text \<open>\<^verbatim>\<open>gst_base_text_overlay_set_property\<close>. The shadow and outline offsets that a
  font description adjusts are doubles read only by the rasterizer; they are part of
  the logged call.\<close>

definition gst_base_text_overlay_set_property ::
  "externals \<Rightarrow> GstBaseTextOverlay \<Rightarrow> property \<Rightarrow> GstBaseTextOverlay" where
  "gst_base_text_overlay_set_property X overlay prop =
     (let overlay =
            (case prop of
               PROP_TEXT v \<Rightarrow> overlay\<lparr>default_text := v, need_render := True\<rparr>
             | PROP_SHADING v \<Rightarrow> overlay\<lparr>want_shading := v\<rparr>
             | PROP_XPAD v \<Rightarrow> overlay\<lparr>xpad := v\<rparr>
             | PROP_YPAD v \<Rightarrow> overlay\<lparr>ypad := v\<rparr>
             | PROP_DELTAX v \<Rightarrow> overlay\<lparr>deltax := v\<rparr>
             | PROP_DELTAY v \<Rightarrow> overlay\<lparr>deltay := v\<rparr>
             | PROP_XPOS v \<Rightarrow> overlay\<lparr>xpos := v\<rparr>
             | PROP_YPOS v \<Rightarrow> overlay\<lparr>ypos := v\<rparr>
             | PROP_VALIGNMENT v \<Rightarrow> overlay\<lparr>valign := v\<rparr>
             | PROP_HALIGNMENT v \<Rightarrow> overlay\<lparr>halign := v\<rparr>
             | PROP_WRAP_MODE v \<Rightarrow>
                 overlay\<lparr>wrap_mode := v, layout := layout overlay @ [Update_wrap_mode v]\<rparr>
             | PROP_FONT_DESC v \<Rightarrow>
                 (if pango_font_description_from_string X v then
                    overlay\<lparr>layout := layout overlay @ [Set_font_description v]\<rparr>
                  else overlay)
             | PROP_COLOR v \<Rightarrow> overlay\<lparr>color := v\<rparr>
             | PROP_OUTLINE_COLOR v \<Rightarrow> overlay\<lparr>outline_color := v\<rparr>
             | PROP_SILENT v \<Rightarrow> overlay\<lparr>silent := v\<rparr>
             | PROP_LINE_ALIGNMENT v \<Rightarrow>
                 overlay\<lparr>line_align := v, layout := layout overlay @ [Set_alignment v]\<rparr>
             | PROP_WAIT_TEXT v \<Rightarrow> overlay\<lparr>wait_text := v\<rparr>
             | PROP_AUTO_ADJUST_SIZE v \<Rightarrow> overlay\<lparr>auto_adjust_size := v, need_render := True\<rparr>
             | PROP_VERTICAL_RENDER v \<Rightarrow>
                 overlay\<lparr>use_vertical_render := v,
                         layout := layout overlay @ [Update_render_mode v],
                         need_render := True\<rparr>
             | PROP_SHADING_VALUE v \<Rightarrow> overlay\<lparr>shading_value := v\<rparr>
             | PROP_SHADOW \<Rightarrow> overlay
             | PROP_OTHER n \<Rightarrow> overlay)
      in overlay\<lparr>need_render := True\<rparr>)"

section \<open>An instance of the external functions\<close>

text \<open>
  To run the model on concrete inputs the external functions need values. These follow
  the documented behaviour of the core library for a segment that is played forward at
  rate 1.0 with no offset; the peer accepts every buffer, a frame maps unless it has no
  data, text is valid when it is ASCII, and the stand-in rasterizer draws 8 by 16 pixels
  per character (the pixels themselves are left out).
\<close>

definition forward_segment_clip ::
  "GstSegment \<Rightarrow> GstFormat \<Rightarrow> guint64 \<Rightarrow> guint64 \<Rightarrow> (guint64 \<times> guint64) option" where
  "forward_segment_clip seg fmt start stop =
     (if seg_format seg = fmt then
        (if seg_stop seg = - 1 \<or> start = - 1 \<or>
            (start \<le> seg_stop seg \<and> (seg_start seg = seg_stop seg \<or> start < seg_stop seg))
         then
           (if stop = - 1 \<or> (seg_start seg \<le> stop \<and> (start = stop \<or> seg_start seg < stop))
            then
              Some (if start = - 1 then - 1 else max start (seg_start seg),
                    if stop = - 1 then seg_stop seg
                    else if seg_stop seg = - 1 then stop
                    else min stop (seg_stop seg))
            else None)
         else None)
      else None)"

definition forward_to_running_time :: "GstSegment \<Rightarrow> GstFormat \<Rightarrow> guint64 \<Rightarrow> guint64" where
  "forward_to_running_time seg fmt position =
     (if position = - 1 then - 1
      else if seg_format seg = fmt then
        (if position < seg_start seg then - 1
         else if seg_stop seg = - 1 then position - seg_start seg + seg_base seg
         else if seg_stop seg < position then - 1
         else position - seg_start seg + seg_base seg)
      else - 1)"

definition segment_init :: "GstFormat \<Rightarrow> GstSegment" where
  "segment_init fmt =
     \<lparr>seg_format = fmt, seg_base = 0, seg_offset = 0, seg_start = 0, seg_stop = - 1,
      seg_time = 0, seg_position = 0, seg_duration = - 1\<rparr>"

definition uint64_scale_int :: "guint64 \<Rightarrow> gint \<Rightarrow> gint \<Rightarrow> guint64" where
  "uint64_scale_int val num denom = of_nat ((unat val * unat num) div unat denom)"

definition ascii_validate :: "string \<Rightarrow> nat option" where
  "ascii_validate text =
     (if list_all (\<lambda>c. of_char c < (128::nat)) text then None
      else Some (length (takeWhile (\<lambda>c. of_char c < (128::nat)) text)))"

definition markup_escape_char :: "char \<Rightarrow> string" where
  "markup_escape_char c =
     (if c = CHR ''&'' then ''&amp;''
      else if c = CHR ''<'' then ''&lt;''
      else if c = CHR ''>'' then ''&gt;''
      else if c = CHR 0x27 then ''&apos;''
      else if c = CHR 0x22 then ''&quot;''
      else [c])"

definition half_or_whole :: "gint \<Rightarrow> gdouble \<Rightarrow> gint" where
  "half_or_whole w x =
     (if x = 0x3FE0000000000000 then gint_div w 2
      else if x = 0x3FF0000000000000 then w
      else 0)"

definition sample_externals :: externals where
  "sample_externals =
     \<lparr>gst_segment_clip = forward_segment_clip,
      gst_segment_to_running_time = forward_to_running_time,
      gst_segment_init = segment_init,
      gst_util_uint64_scale_int = uint64_scale_int,
      gst_pad_push = (\<lambda>item. GST_FLOW_OK),
      gst_video_frame_map = (\<lambda>frame. 0 < length (buffer_data frame)),
      get_text = None,
      g_utf8_validate = ascii_validate,
      g_markup_escape_text = (\<lambda>text. concat (map markup_escape_char text)),
      scaled_to_gint = half_or_whole,
      pangocairo = (\<lambda>overlay text. ([], 8 * of_nat (length text), 16, 12)),
      pango_font_description_from_string = (\<lambda>description. 0 < length description)\<rparr>"

text \<open>An overlay on a linked text pad in a 320 by 240 stream, both segments in time
  format from 0 with no end, and a frame and a text buffer to feed it (times in
  nanoseconds).\<close>

definition linked_overlay :: GstBaseTextOverlay where
  "linked_overlay =
     (gst_base_text_overlay_init sample_externals)
       \<lparr>text_segment := segment_init GST_FORMAT_TIME, text_linked := True,
        width := 320, height := 240\<rparr>"

definition frame_at :: "GstClockTime \<Rightarrow> GstClockTime \<Rightarrow> GstBuffer" where
  "frame_at t d = \<lparr>GST_BUFFER_TIMESTAMP = t, GST_BUFFER_DURATION = d, buffer_data = ''frame''\<rparr>"

definition text_at :: "GstClockTime \<Rightarrow> GstClockTime \<Rightarrow> GstBuffer" where
  "text_at t d = \<lparr>GST_BUFFER_TIMESTAMP = t, GST_BUFFER_DURATION = d, buffer_data = ''Hi''\<rparr>"

definition locals_at :: "GstClockTime \<Rightarrow> GstClockTime \<Rightarrow> video_locals" where
  "locals_at t d =
     \<lparr>vc_buffer = frame_at t d, vc_start = t, vc_stop = t + d, vc_clip_start = t\<rparr>"

section \<open>Predicates and sample inputs of the properties\<close>

text \<open>The placed image lies within the frame: the bounds are those of the integers,
  not of their 32-bit sum.\<close>

definition within_frame :: "GstBaseTextOverlay \<Rightarrow> gint \<times> gint \<Rightarrow> bool" where
  "within_frame overlay p =
     (0 \<le> sint (fst p) \<and> sint (fst p) + sint (image_width overlay) \<le> sint (width overlay) \<and>
      0 \<le> sint (snd p) \<and> sint (snd p) + sint (image_height overlay) \<le> sint (height overlay))"

text \<open>The render cache is dirty or holds a composition. This is true of a new object
  and every function of this theory keeps it (lemmas \<open>render_cache_ready_\<close>\<dots> below).\<close>

definition render_cache_ready :: "GstBaseTextOverlay \<Rightarrow> bool" where
  "render_cache_ready overlay = (need_render overlay \<or> composition overlay \<noteq> None)"

text \<open>A text segment from 100 to 1000, a frame without data (which the sample
  \<open>gst_video_frame_map\<close> refuses), and a text buffer without a timestamp.\<close>

definition clipping_segment :: GstSegment where
  "clipping_segment = (segment_init GST_FORMAT_TIME)\<lparr>seg_start := 100, seg_stop := 1000\<rparr>"

definition empty_frame_at :: "GstClockTime \<Rightarrow> GstClockTime \<Rightarrow> GstBuffer" where
  "empty_frame_at t d = \<lparr>GST_BUFFER_TIMESTAMP = t, GST_BUFFER_DURATION = d, buffer_data = []\<rparr>"

definition unstamped_text :: "GstClockTime \<Rightarrow> GstBuffer" where
  "unstamped_text d =
     \<lparr>GST_BUFFER_TIMESTAMP = GST_CLOCK_TIME_NONE, GST_BUFFER_DURATION = d, buffer_data = ''Hi''\<rparr>"

section \<open>Auxiliary facts\<close>

subsection \<open>Unfolding the model on concrete inputs\<close>

lemmas sample_simps =
  sample_externals_def forward_segment_clip_def forward_to_running_time_def segment_init_def
  linked_overlay_def gst_base_text_overlay_init_def frame_at_def text_at_def locals_at_def
  clipping_segment_def empty_frame_at_def unstamped_text_def
  GST_BUFFER_TIMESTAMP_IS_VALID_def GST_BUFFER_DURATION_IS_VALID_def
  GST_CLOCK_TIME_IS_VALID_def GST_CLOCK_TIME_NONE_def

lemmas chain_simps =
  gst_base_text_overlay_video_chain_def video_chain_loop.simps wait_for_text_buf_def
  gst_base_text_overlay_text_chain_def text_chain_queue_def text_chain_wake_def
  gst_base_text_overlay_pop_text_def GST_BASE_TEXT_OVERLAY_BROADCAST_def pad_push_def
  update_position_def gst_base_text_overlay_push_frame_def render_text_buffer_def
  gst_base_text_overlay_render_text_def gst_base_text_overlay_render_pangocairo_def
  gst_base_text_overlay_set_composition_def gst_base_text_overlay_get_pos_def
  shaded_box_def g_strndup_def g_strdelimit_def ascii_validate_def markup_escape_char_def
  gint_div_def signed_divide_int_def
  gst_base_text_overlay_text_event_def gst_base_text_overlay_video_event_def Let_def

subsection \<open>Arithmetic of \<^verbatim>\<open>gint\<close>\<close>

lemma sint_gint_range: "- 2147483648 \<le> sint (a::gint) \<and> sint a < 2147483648"
  using sint_range_size[of a] by (simp add: word_size)

lemma sint_sub_nowrap:
  "- 2147483648 \<le> sint (a::gint) - sint b \<Longrightarrow> sint a - sint b < 2147483648 \<Longrightarrow>
   sint (a - b) = sint a - sint b"
  by (simp add: sint_word_ariths signed_take_bit_int_eq_self)

lemma sint_add_nowrap:
  "- 2147483648 \<le> sint (a::gint) + sint b \<Longrightarrow> sint a + sint b < 2147483648 \<Longrightarrow>
   sint (a + b) = sint a + sint b"
  by (simp add: sint_word_ariths signed_take_bit_int_eq_self)

lemma sint_gint_half:
  "0 \<le> sint (a::gint) \<Longrightarrow> sint (gint_div a 2) = sint a div 2"
proof -
  assume a: "0 \<le> sint a"
  have r: "sint a < 2147483648" using sint_gint_range[of a] by simp
  have "sint a sdiv 2 = sint a div 2" using a by (simp add: signed_divide_int_def sgn_if)
  moreover have "sint (word_of_int (sint a div 2) :: gint) = sint a div 2"
  proof -
    have "- 2147483648 \<le> sint a div 2" "sint a div 2 < 2147483648" using a r by simp_all
    then show ?thesis by (simp add: sint_sbintrunc' signed_take_bit_int_eq_self)
  qed
  ultimately show ?thesis by (simp add: gint_div_def)
qed

lemma clamp_within:
  "0 \<le> sint (w::gint) \<Longrightarrow> sint w \<le> sint W \<Longrightarrow>
   0 \<le> sint (CLAMP x 0 (W - w)) \<and> sint (CLAMP x 0 (W - w)) + sint w \<le> sint W"
  using sint_gint_range[of W] sint_gint_range[of w]
  by (auto simp add: CLAMP_def word_sless_alt sint_sub_nowrap)


subsection \<open>The slot, the render cache and the push\<close>

lemma pop_text_eq:
  "gst_base_text_overlay_pop_text overlay =
   overlay\<lparr>text_buffer := None, cond_broadcasts := Suc (cond_broadcasts overlay)\<rparr>"
  by (cases overlay) (simp add: gst_base_text_overlay_pop_text_def GST_BASE_TEXT_OVERLAY_BROADCAST_def)

lemma push_frame_shape:
  "\<exists>r items. gst_base_text_overlay_push_frame X overlay frame =
      (r, overlay\<lparr>srcpad := srcpad overlay @ items\<rparr>) \<and> length items \<le> 1"
proof (cases "composition overlay")
  case None
  have "gst_base_text_overlay_push_frame X overlay frame =
        (gst_pad_push X (Unmodified frame), overlay\<lparr>srcpad := srcpad overlay @ [Unmodified frame]\<rparr>)"
    using None by (simp add: gst_base_text_overlay_push_frame_def pad_push_def)
  then show ?thesis by (intro exI[of _ "[Unmodified frame]"] exI) simp
next
  case (Some compo)
  show ?thesis
  proof (cases "attach_compo_to_buffer overlay")
    case True
    have "gst_base_text_overlay_push_frame X overlay frame =
        (gst_pad_push X (Attached frame compo),
         overlay\<lparr>srcpad := srcpad overlay @ [Attached frame compo]\<rparr>)"
      using Some True by (simp add: gst_base_text_overlay_push_frame_def pad_push_def)
    then show ?thesis by (intro exI[of _ "[Attached frame compo]"] exI) simp
  next
    case False
    show ?thesis
    proof (cases "gst_video_frame_map X frame")
      case True
      have "gst_base_text_overlay_push_frame X overlay frame =
        (gst_pad_push X (Blended frame (shaded_box X overlay) compo),
         overlay\<lparr>srcpad := srcpad overlay @ [Blended frame (shaded_box X overlay) compo]\<rparr>)"
        using Some False True
        by (simp add: gst_base_text_overlay_push_frame_def pad_push_def Let_def)
      then show ?thesis
        by (intro exI[of _ "[Blended frame (shaded_box X overlay) compo]"] exI) simp
    next
      case m: False
      have "gst_base_text_overlay_push_frame X overlay frame =
            (GST_FLOW_OK, overlay\<lparr>srcpad := srcpad overlay @ []\<rparr>)"
        using Some False m by (simp add: gst_base_text_overlay_push_frame_def)
      then show ?thesis by (intro exI[of _ "[]"] exI) simp
    qed
  qed
qed


lemma push_frame_cache:
  "need_render (snd (gst_base_text_overlay_push_frame X overlay frame)) = need_render overlay \<and>
   rasterized (snd (gst_base_text_overlay_push_frame X overlay frame)) = rasterized overlay \<and>
   text_image (snd (gst_base_text_overlay_push_frame X overlay frame)) = text_image overlay \<and>
   composition (snd (gst_base_text_overlay_push_frame X overlay frame)) = composition overlay"
proof -
  from push_frame_shape[of X overlay frame] obtain r items where
    "gst_base_text_overlay_push_frame X overlay frame =
       (r, overlay\<lparr>srcpad := srcpad overlay @ items\<rparr>)" by blast
  then show ?thesis by simp
qed

lemma render_text_clean:
  "\<not> need_render overlay \<Longrightarrow> gst_base_text_overlay_render_text X overlay text n = overlay"
  by (simp add: gst_base_text_overlay_render_text_def)

lemma render_text_buffer_clean:
  "\<not> need_render overlay \<Longrightarrow> render_text_buffer X overlay tb = overlay"
  by (simp add: render_text_buffer_def Let_def render_text_clean)

lemma set_composition_fields:
  "text_image overlay = Some img \<Longrightarrow>
   \<exists>compo. gst_base_text_overlay_set_composition X overlay = overlay\<lparr>composition := Some compo\<rparr> \<and>
     rect_pixels compo = img"
proof -
  assume a: "text_image overlay = Some img"
  obtain x y where p: "gst_base_text_overlay_get_pos X overlay = (x, y)"
    by (cases "gst_base_text_overlay_get_pos X overlay") auto
  let ?c = "\<lparr>rect_pixels = img, rect_x = x, rect_y = y,
             rect_width = image_width overlay, rect_height = image_height overlay\<rparr>"
  have "gst_base_text_overlay_set_composition X overlay = overlay\<lparr>composition := Some ?c\<rparr>"
    using a p by (simp add: gst_base_text_overlay_set_composition_def)
  then show ?thesis by (intro exI[of _ ?c]) simp
qed

lemma render_pangocairo_shape:
  "\<exists>img w h bl compo.
     gst_base_text_overlay_render_pangocairo X overlay s =
       overlay\<lparr>text_image := Some img, image_width := w, image_height := h, baseline_y := bl,
         rasterized := rasterized overlay @ [s], composition := Some compo\<rparr> \<and>
     rect_pixels compo = img"
proof -
  obtain img w h bl where p: "pangocairo X overlay s = (img, w, h, bl)"
    by (cases "pangocairo X overlay s") auto
  let ?o = "overlay\<lparr>text_image := Some img, image_width := w, image_height := h,
                   baseline_y := bl, rasterized := rasterized overlay @ [s]\<rparr>"
  have "text_image ?o = Some img" by simp
  from set_composition_fields[OF this, of X] obtain compo where
    c: "gst_base_text_overlay_set_composition X ?o = ?o\<lparr>composition := Some compo\<rparr>"
       "rect_pixels compo = img" by blast
  show ?thesis
    using p c by (auto simp add: gst_base_text_overlay_render_pangocairo_def)
qed

lemma render_text_dirty_shape:
  assumes "need_render overlay"
  shows "\<exists>img w h bl compo s.
     gst_base_text_overlay_render_text X overlay text n =
       overlay\<lparr>text_image := Some img, image_width := w, image_height := h, baseline_y := bl,
         rasterized := rasterized overlay @ [s], composition := Some compo,
         need_render := False\<rparr>"
proof -
  define s where "s = g_strdelimit
     (case text of Some t \<Rightarrow> g_strndup t (if n < 0 then int (length t) else n) | None \<Rightarrow> '' '')
     [CHR 0x0D, CHR 0x09] CHR '' ''"
  from render_pangocairo_shape[of X overlay s] obtain img w h bl compo where
    "gst_base_text_overlay_render_pangocairo X overlay s =
       overlay\<lparr>text_image := Some img, image_width := w, image_height := h, baseline_y := bl,
         rasterized := rasterized overlay @ [s], composition := Some compo\<rparr>" by blast
  then have "gst_base_text_overlay_render_text X overlay text n =
       overlay\<lparr>text_image := Some img, image_width := w, image_height := h, baseline_y := bl,
         rasterized := rasterized overlay @ [s], composition := Some compo,
         need_render := False\<rparr>"
    using assms by (simp add: gst_base_text_overlay_render_text_def Let_def s_def)
  then show ?thesis by blast
qed




subsection \<open>Passes of the video chain\<close>




lemma pass_keeps_clean_cache:
  assumes "\<not> need_render overlay"
  shows "need_render (overlay_of (wait_for_text_buf X overlay l)) = need_render overlay \<and>
         rasterized (overlay_of (wait_for_text_buf X overlay l)) = rasterized overlay \<and>
         text_image (overlay_of (wait_for_text_buf X overlay l)) = text_image overlay \<and>
         composition (overlay_of (wait_for_text_buf X overlay l)) = composition overlay"
proof -
  note pf = push_frame_cache[of X overlay "vc_buffer l"]
  have pf2: "\<And>r o'. gst_base_text_overlay_push_frame X overlay (vc_buffer l) = (r, o') \<Longrightarrow>
     need_render o' = need_render overlay \<and> rasterized o' = rasterized overlay \<and>
     text_image o' = text_image overlay \<and> composition o' = composition overlay"
    using pf by simp
  show ?thesis
    using assms
    by (auto simp add: wait_for_text_buf_def Let_def pad_push_def update_position_def
          pop_text_eq render_text_clean render_text_buffer_clean
        split: option.splits prod.splits dest!: pf2)
qed

lemma loop_keeps_clean_cache:
  "\<not> need_render overlay \<Longrightarrow>
   need_render (overlay_of (video_chain_loop X overlay l)) = need_render overlay \<and>
   rasterized (overlay_of (video_chain_loop X overlay l)) = rasterized overlay \<and>
   text_image (overlay_of (video_chain_loop X overlay l)) = text_image overlay \<and>
   composition (overlay_of (video_chain_loop X overlay l)) = composition overlay"
proof (induction X overlay l rule: video_chain_loop.induct)
  case (1 X overlay l)
  note p = pass_keeps_clean_cache[OF "1.prems", of X l]
  show ?case
  proof (cases "wait_for_text_buf X overlay l")
    case (Returned r o')
    then have "video_chain_loop X overlay l = Returned r o'"
      by (subst video_chain_loop.simps) simp
    then show ?thesis using p Returned by simp
  next
    case (Again l' o')
    then have n: "\<not> need_render o'" using p "1.prems" by simp
    have "video_chain_loop X overlay l = video_chain_loop X o' l'"
      using Again by (subst video_chain_loop.simps) simp
    then show ?thesis
      using "1.IH"[OF Again n] p Again by simp
  next
    case (Waiting l' o')
    then have "video_chain_loop X overlay l = Waiting l' o'"
      by (subst video_chain_loop.simps) simp
    then show ?thesis using p Waiting by simp
  qed
qed

lemma video_chain_enters_loop:
  assumes "GST_BUFFER_TIMESTAMP_IS_VALID buffer" "GST_BUFFER_DURATION_IS_VALID buffer"
    and "gst_segment_clip X (segment overlay) GST_FORMAT_TIME (GST_BUFFER_TIMESTAMP buffer)
           (GST_BUFFER_TIMESTAMP buffer + GST_BUFFER_DURATION buffer) =
         Some (GST_BUFFER_TIMESTAMP buffer, GST_BUFFER_TIMESTAMP buffer + GST_BUFFER_DURATION buffer)"
    and "GST_BUFFER_TIMESTAMP buffer + GST_BUFFER_DURATION buffer \<noteq> GST_CLOCK_TIME_NONE"
  shows "gst_base_text_overlay_video_chain X overlay buffer =
         video_chain_loop X overlay
           \<lparr>vc_buffer = buffer, vc_start = GST_BUFFER_TIMESTAMP buffer,
            vc_stop = GST_BUFFER_TIMESTAMP buffer + GST_BUFFER_DURATION buffer,
            vc_clip_start = GST_BUFFER_TIMESTAMP buffer\<rparr>"
  using assms
  by (simp add: gst_base_text_overlay_video_chain_def Let_def GST_CLOCK_TIME_NONE_def)

subsection \<open>The text chain\<close>

lemma text_chain_queue_keeps_occupied:
  "text_buffer overlay = Some old \<Longrightarrow>
   text_buffer (overlay_of (text_chain_queue overlay buffer clip_start)) = Some old"
  by (simp add: text_chain_queue_def)

lemma text_chain_keeps_occupied:
  "text_buffer overlay = Some old \<Longrightarrow>
   text_buffer (overlay_of (gst_base_text_overlay_text_chain X overlay buffer)) = Some old"
  by (simp add: gst_base_text_overlay_text_chain_def Let_def text_chain_queue_def
      split: option.splits prod.splits)

subsection \<open>The render cache stays ready\<close>

lemma render_cache_ready_init: "render_cache_ready (gst_base_text_overlay_init X)"
  by (simp add: render_cache_ready_def gst_base_text_overlay_init_def)

lemma render_cache_ready_set_property:
  "render_cache_ready (gst_base_text_overlay_set_property X overlay prop)"
  by (simp add: render_cache_ready_def gst_base_text_overlay_set_property_def)

lemma render_cache_ready_render_text:
  "render_cache_ready overlay \<Longrightarrow>
   render_cache_ready (gst_base_text_overlay_render_text X overlay text textlen)"
proof (cases "need_render overlay")
  case True
  from render_text_dirty_shape [OF True, of X "text" textlen] show ?thesis
    by (auto simp add: render_cache_ready_def)
next
  case False
  assume "render_cache_ready overlay"
  with False show ?thesis by (simp add: render_text_clean)
qed

lemma render_cache_ready_render_text_buffer:
  "render_cache_ready overlay \<Longrightarrow> render_cache_ready (render_text_buffer X overlay tb)"
  by (simp add: render_text_buffer_def Let_def render_cache_ready_render_text)

lemma render_cache_ready_text_chain:
  "render_cache_ready overlay \<Longrightarrow>
   render_cache_ready (overlay_of (gst_base_text_overlay_text_chain X overlay buffer)) \<and>
   render_cache_ready (overlay_of (text_chain_wake overlay waiting))"
  by (simp add: render_cache_ready_def gst_base_text_overlay_text_chain_def text_chain_wake_def
        text_chain_queue_def GST_BASE_TEXT_OVERLAY_BROADCAST_def Let_def
      split: option.splits prod.splits)

lemma render_cache_ready_events:
  "render_cache_ready overlay \<Longrightarrow>
   render_cache_ready (gst_base_text_overlay_text_event X overlay tev) \<and>
   render_cache_ready (gst_base_text_overlay_video_event X overlay vev) \<and>
   render_cache_ready (gst_base_text_overlay_change_state X overlay tr parent_failed)"
  by (simp add: render_cache_ready_def gst_base_text_overlay_text_event_def
        gst_base_text_overlay_video_event_def gst_base_text_overlay_change_state_def
        GST_BASE_TEXT_OVERLAY_BROADCAST_def pop_text_eq Let_def
      split: text_event.splits video_event.splits GstStateChange.splits)

lemma render_cache_ready_pass:
  assumes "render_cache_ready overlay"
  shows "render_cache_ready (overlay_of (wait_for_text_buf X overlay l))"
proof -
  have pf: "\<And>ov r ov'. gst_base_text_overlay_push_frame X ov (vc_buffer l) = (r, ov') \<Longrightarrow>
     render_cache_ready ov' = render_cache_ready ov"
    using push_frame_cache[of X _ "vc_buffer l"]
    by (simp add: render_cache_ready_def) (metis snd_conv)
  note rt = render_cache_ready_render_text[OF assms, of X]
    render_cache_ready_render_text_buffer[OF assms, of X]
  have upd: "\<And>ov c. render_cache_ready (update_position ov c) = render_cache_ready ov"
    "\<And>ov. render_cache_ready (gst_base_text_overlay_pop_text ov) = render_cache_ready ov"
    "\<And>ov xs. render_cache_ready (ov\<lparr>srcpad := xs\<rparr>) = render_cache_ready ov"
    by (simp_all add: render_cache_ready_def update_position_def pop_text_eq)
  show ?thesis
    using assms rt
    by (auto simp add: wait_for_text_buf_def Let_def pad_push_def upd
        split: option.splits prod.splits dest!: pf)
qed

lemma render_cache_ready_loop:
  "render_cache_ready overlay \<Longrightarrow>
   render_cache_ready (overlay_of (video_chain_loop X overlay l))"
proof (induction X overlay l rule: video_chain_loop.induct)
  case (1 X overlay l)
  note p = render_cache_ready_pass[OF "1.prems", of X l]
  show ?case
  proof (cases "wait_for_text_buf X overlay l")
    case (Returned r o')
    then have "video_chain_loop X overlay l = Returned r o'"
      by (subst video_chain_loop.simps) simp
    then show ?thesis using p Returned by simp
  next
    case (Again l' o')
    then have n: "render_cache_ready o'" using p by simp
    have "video_chain_loop X overlay l = video_chain_loop X o' l'"
      using Again by (subst video_chain_loop.simps) simp
    then show ?thesis
      using "1.IH"[OF Again n] by simp
  next
    case (Waiting l' o')
    then have "video_chain_loop X overlay l = Waiting l' o'"
      by (subst video_chain_loop.simps) simp
    then show ?thesis using p Waiting by simp
  qed
qed

section \<open>The claims\<close>

text \<open>
  C1. A video frame reaches the slot test of the video chain (not flushing, not at EOS,
  not silent, text pad linked) while the slot holds a text buffer with a valid timestamp
  and duration; \<open>[vs, ve)\<close> and \<open>[ts, te)\<close> are the running intervals of the frame
  and of the text. The stale test \<open>te \<le> vs\<close> comes first: if it holds (whatever the
  future test says) the pass pops the slot, pushes nothing and jumps back to
  \<^verbatim>\<open>wait_for_text_buf\<close> with the same frame, so the loop continues from the emptied
  slot. Otherwise, if \<open>ve \<le> ts\<close>, the frame is pushed unmodified and the slot still
  holds the same buffer. (Both tests hold for a text and a frame of no length at the same
  time; the text is popped then.)
\<close>

theorem stale_checked_before_future:
  assumes "\<not> video_flushing overlay" "\<not> video_eos overlay" "\<not> silent overlay"
    and "text_linked overlay"
    and "text_buffer overlay = Some tb"
    and "GST_BUFFER_TIMESTAMP_IS_VALID tb" "GST_BUFFER_DURATION_IS_VALID tb"
    and "vs = gst_segment_to_running_time X (segment overlay) GST_FORMAT_TIME (vc_start l)"
    and "ve = gst_segment_to_running_time X (segment overlay) GST_FORMAT_TIME (vc_stop l)"
    and "ts = gst_segment_to_running_time X (text_segment overlay) GST_FORMAT_TIME
                (GST_BUFFER_TIMESTAMP tb)"
    and "te = gst_segment_to_running_time X (text_segment overlay) GST_FORMAT_TIME
                (GST_BUFFER_TIMESTAMP tb + GST_BUFFER_DURATION tb)"
  shows "(te \<le> vs \<longrightarrow>
            wait_for_text_buf X overlay l = Again l (gst_base_text_overlay_pop_text overlay) \<and>
            text_buffer (gst_base_text_overlay_pop_text overlay) = None \<and>
            srcpad (gst_base_text_overlay_pop_text overlay) = srcpad overlay \<and>
            video_chain_loop X overlay l =
              video_chain_loop X (gst_base_text_overlay_pop_text overlay) l) \<and>
         (\<not> te \<le> vs \<and> ve \<le> ts \<longrightarrow>
            wait_for_text_buf X overlay l =
              Returned (gst_pad_push X (Unmodified (vc_buffer l)))
                (update_position
                   (overlay\<lparr>srcpad := srcpad overlay @ [Unmodified (vc_buffer l)]\<rparr>)
                   (vc_clip_start l)) \<and>
            video_chain_loop X overlay l = wait_for_text_buf X overlay l \<and>
            text_buffer (overlay_of (wait_for_text_buf X overlay l)) = Some tb \<and>
            srcpad (overlay_of (wait_for_text_buf X overlay l)) =
              srcpad overlay @ [Unmodified (vc_buffer l)])"
proof (intro conjI impI)
  assume stale: "te \<le> vs"
  show a: "wait_for_text_buf X overlay l = Again l (gst_base_text_overlay_pop_text overlay)"
    using assms stale by (simp add: wait_for_text_buf_def Let_def)
  show "text_buffer (gst_base_text_overlay_pop_text overlay) = None"
    by (simp add: pop_text_eq)
  show "srcpad (gst_base_text_overlay_pop_text overlay) = srcpad overlay"
    by (simp add: pop_text_eq)
  show "video_chain_loop X overlay l =
        video_chain_loop X (gst_base_text_overlay_pop_text overlay) l"
    by (subst video_chain_loop.simps) (simp add: a)
next
  assume future: "\<not> te \<le> vs \<and> ve \<le> ts"
  show b: "wait_for_text_buf X overlay l =
              Returned (gst_pad_push X (Unmodified (vc_buffer l)))
                (update_position
                   (overlay\<lparr>srcpad := srcpad overlay @ [Unmodified (vc_buffer l)]\<rparr>)
                   (vc_clip_start l))"
    using assms future by (simp add: wait_for_text_buf_def Let_def pad_push_def)
  show "video_chain_loop X overlay l = wait_for_text_buf X overlay l"
    by (subst video_chain_loop.simps) (simp add: b)
  show "text_buffer (overlay_of (wait_for_text_buf X overlay l)) = Some tb"
    using assms(5) by (simp add: b update_position_def)
  show "srcpad (overlay_of (wait_for_text_buf X overlay l)) =
              srcpad overlay @ [Unmodified (vc_buffer l)]"
    by (simp add: b update_position_def)
qed

theorem stale_checked_before_future_witness:
  "gst_segment_to_running_time sample_externals (text_segment linked_overlay) GST_FORMAT_TIME
     (1000 + 0)
     \<le> gst_segment_to_running_time sample_externals (segment linked_overlay) GST_FORMAT_TIME 1000 \<and>
   gst_segment_to_running_time sample_externals (segment linked_overlay) GST_FORMAT_TIME
     (1000 + 0)
     \<le> gst_segment_to_running_time sample_externals (text_segment linked_overlay) GST_FORMAT_TIME
          1000 \<and>
   wait_for_text_buf sample_externals (linked_overlay\<lparr>text_buffer := Some (text_at 1000 0)\<rparr>)
     (locals_at 1000 0) =
     Again (locals_at 1000 0)
       (gst_base_text_overlay_pop_text (linked_overlay\<lparr>text_buffer := Some (text_at 1000 0)\<rparr>)) \<and>
   text_buffer (overlay_of (wait_for_text_buf sample_externals
     (linked_overlay\<lparr>text_buffer := Some (text_at 2000 1000)\<rparr>) (locals_at 0 1000))) =
     Some (text_at 2000 1000) \<and>
   srcpad (overlay_of (wait_for_text_buf sample_externals
     (linked_overlay\<lparr>text_buffer := Some (text_at 2000 1000)\<rparr>) (locals_at 0 1000))) =
     [] @ [Unmodified (vc_buffer (locals_at 0 1000))]"
proof -
  let ?a = "linked_overlay\<lparr>text_buffer := Some (text_at 1000 0)\<rparr>"
  let ?b = "linked_overlay\<lparr>text_buffer := Some (text_at 2000 1000)\<rparr>"
  have pa: "\<not> video_flushing ?a" "\<not> video_eos ?a" "\<not> silent ?a" "text_linked ?a"
    "text_buffer ?a = Some (text_at 1000 0)"
    "GST_BUFFER_TIMESTAMP_IS_VALID (text_at 1000 0)" "GST_BUFFER_DURATION_IS_VALID (text_at 1000 0)"
    by (simp_all add: sample_simps)
  have pb: "\<not> video_flushing ?b" "\<not> video_eos ?b" "\<not> silent ?b" "text_linked ?b"
    "text_buffer ?b = Some (text_at 2000 1000)"
    "GST_BUFFER_TIMESTAMP_IS_VALID (text_at 2000 1000)"
    "GST_BUFFER_DURATION_IS_VALID (text_at 2000 1000)"
    by (simp_all add: sample_simps)
  note ta = stale_checked_before_future
    [where X = sample_externals and l = "locals_at 1000 0", OF pa refl refl refl refl]
  note tb = stale_checked_before_future
    [where X = sample_externals and l = "locals_at 0 1000", OF pb refl refl refl refl]
  have both:
    "gst_segment_to_running_time sample_externals (text_segment linked_overlay) GST_FORMAT_TIME
       (1000 + 0)
     \<le> gst_segment_to_running_time sample_externals (segment linked_overlay) GST_FORMAT_TIME 1000"
    "gst_segment_to_running_time sample_externals (segment linked_overlay) GST_FORMAT_TIME
       (1000 + 0)
     \<le> gst_segment_to_running_time sample_externals (text_segment linked_overlay)
          GST_FORMAT_TIME 1000"
    by (simp_all add: sample_simps)
  have stale:
    "gst_segment_to_running_time sample_externals (text_segment ?a) GST_FORMAT_TIME
       (GST_BUFFER_TIMESTAMP (text_at 1000 0) + GST_BUFFER_DURATION (text_at 1000 0))
     \<le> gst_segment_to_running_time sample_externals (segment ?a) GST_FORMAT_TIME
          (vc_start (locals_at 1000 0))"
    by (simp add: sample_simps)
  have future:
    "\<not> gst_segment_to_running_time sample_externals (text_segment ?b) GST_FORMAT_TIME
         (GST_BUFFER_TIMESTAMP (text_at 2000 1000) + GST_BUFFER_DURATION (text_at 2000 1000))
       \<le> gst_segment_to_running_time sample_externals (segment ?b) GST_FORMAT_TIME
            (vc_start (locals_at 0 1000)) \<and>
     gst_segment_to_running_time sample_externals (segment ?b) GST_FORMAT_TIME
         (vc_stop (locals_at 0 1000))
       \<le> gst_segment_to_running_time sample_externals (text_segment ?b) GST_FORMAT_TIME
            (GST_BUFFER_TIMESTAMP (text_at 2000 1000))"
    by (simp add: sample_simps)
  have sp: "srcpad ?b = []"
    by (simp add: sample_simps)
  from ta stale have 1: "wait_for_text_buf sample_externals ?a (locals_at 1000 0) =
     Again (locals_at 1000 0) (gst_base_text_overlay_pop_text ?a)"
    by blast
  from tb future have 2: "text_buffer (overlay_of (wait_for_text_buf sample_externals ?b
       (locals_at 0 1000))) = Some (text_at 2000 1000)"
    and 3: "srcpad (overlay_of (wait_for_text_buf sample_externals ?b (locals_at 0 1000))) =
       srcpad ?b @ [Unmodified (vc_buffer (locals_at 0 1000))]"
    by blast+
  from both 1 2 3 sp show ?thesis by simp
qed




text \<open>
  C3. The slot \<^verbatim>\<open>overlay->text_buffer\<close> is one pointer, so it holds no or one
  buffer. The text chain stores only into an empty slot: while the slot is occupied the
  thread waits with the state untouched; a woken thread returns FLUSHING when the text
  flushing flag is set and tests the slot again otherwise; a buffer that is in the segment
  goes through this loop with its clipped timestamp; storing sets
  \<^verbatim>\<open>need_render\<close> and broadcasts the condition once; and neither the entry nor a
  wake ever replaces a buffer that is in the slot.
\<close>

theorem text_chain_stores_only_into_empty_slot:
  "(text_buffer overlay \<noteq> None \<longrightarrow>
      text_chain_queue overlay buffer clip_start = Waiting (buffer, clip_start) overlay) \<and>
   (text_buffer overlay = None \<longrightarrow>
      (\<exists>overlay'. text_chain_queue overlay buffer clip_start = Returned GST_FLOW_OK overlay' \<and>
         text_buffer overlay' = Some buffer \<and> need_render overlay' \<and>
         cond_broadcasts overlay' = Suc (cond_broadcasts overlay))) \<and>
   (text_flushing overlay \<longrightarrow>
      text_chain_wake overlay (buffer, clip_start) = Returned GST_FLOW_FLUSHING overlay) \<and>
   (\<not> text_flushing overlay \<longrightarrow>
      text_chain_wake overlay (buffer, clip_start) =
        text_chain_queue overlay buffer clip_start) \<and>
   (\<not> text_flushing overlay \<and> \<not> text_eos overlay \<and> GST_BUFFER_TIMESTAMP_IS_VALID incoming \<and>
    gst_segment_clip X (text_segment overlay) GST_FORMAT_TIME (GST_BUFFER_TIMESTAMP incoming)
      (if GST_BUFFER_DURATION_IS_VALID incoming
       then GST_BUFFER_TIMESTAMP incoming + GST_BUFFER_DURATION incoming
       else GST_CLOCK_TIME_NONE) = Some (cs, ce) \<longrightarrow>
      gst_base_text_overlay_text_chain X overlay incoming =
        text_chain_queue overlay (incoming\<lparr>GST_BUFFER_TIMESTAMP := cs\<rparr>) cs) \<and>
   (text_buffer overlay = Some old \<longrightarrow>
      text_buffer (overlay_of (gst_base_text_overlay_text_chain X overlay incoming)) = Some old \<and>
      text_buffer (overlay_of (text_chain_wake overlay (buffer, clip_start))) = Some old)"
proof (intro conjI impI)
  assume "text_buffer overlay \<noteq> None"
  then show "text_chain_queue overlay buffer clip_start = Waiting (buffer, clip_start) overlay"
    by (simp add: text_chain_queue_def)
next
  assume "text_buffer overlay = None"
  then show "\<exists>overlay'. text_chain_queue overlay buffer clip_start = Returned GST_FLOW_OK overlay' \<and>
         text_buffer overlay' = Some buffer \<and> need_render overlay' \<and>
         cond_broadcasts overlay' = Suc (cond_broadcasts overlay)"
    by (simp add: text_chain_queue_def GST_BASE_TEXT_OVERLAY_BROADCAST_def Let_def)
next
  assume "text_flushing overlay"
  then show "text_chain_wake overlay (buffer, clip_start) = Returned GST_FLOW_FLUSHING overlay"
    by (simp add: text_chain_wake_def)
next
  assume "\<not> text_flushing overlay"
  then show "text_chain_wake overlay (buffer, clip_start) =
        text_chain_queue overlay buffer clip_start"
    by (simp add: text_chain_wake_def)
next
  assume "\<not> text_flushing overlay \<and> \<not> text_eos overlay \<and> GST_BUFFER_TIMESTAMP_IS_VALID incoming \<and>
    gst_segment_clip X (text_segment overlay) GST_FORMAT_TIME (GST_BUFFER_TIMESTAMP incoming)
      (if GST_BUFFER_DURATION_IS_VALID incoming
       then GST_BUFFER_TIMESTAMP incoming + GST_BUFFER_DURATION incoming
       else GST_CLOCK_TIME_NONE) = Some (cs, ce)"
  then show "gst_base_text_overlay_text_chain X overlay incoming =
        text_chain_queue overlay (incoming\<lparr>GST_BUFFER_TIMESTAMP := cs\<rparr>) cs"
    by (simp add: gst_base_text_overlay_text_chain_def Let_def)
next
  assume o: "text_buffer overlay = Some old"
  show "text_buffer (overlay_of (gst_base_text_overlay_text_chain X overlay incoming)) = Some old"
    by (rule text_chain_keeps_occupied[OF o])
  show "text_buffer (overlay_of (text_chain_wake overlay (buffer, clip_start))) = Some old"
    using o by (simp add: text_chain_wake_def text_chain_queue_def)
qed

theorem text_chain_stores_only_into_empty_slot_witness:
  "gst_base_text_overlay_text_chain sample_externals
     (linked_overlay\<lparr>text_buffer := Some (text_at 0 100)\<rparr>) (text_at 200 100) =
     Waiting (text_at 200 100, 200) (linked_overlay\<lparr>text_buffer := Some (text_at 0 100)\<rparr>) \<and>
   text_chain_wake (linked_overlay\<lparr>text_buffer := Some (text_at 0 100), text_flushing := True\<rparr>)
     (text_at 200 100, 200) =
     Returned GST_FLOW_FLUSHING
       (linked_overlay\<lparr>text_buffer := Some (text_at 0 100), text_flushing := True\<rparr>) \<and>
   (\<exists>overlay'. text_chain_wake linked_overlay (text_at 200 100, 200) =
       Returned GST_FLOW_OK overlay' \<and>
      text_buffer overlay' = Some (text_at 200 100) \<and> need_render overlay' \<and>
      cond_broadcasts overlay' = Suc (cond_broadcasts linked_overlay))"
proof -
  let ?occ = "linked_overlay\<lparr>text_buffer := Some (text_at 0 100)\<rparr>"
  let ?fl = "linked_overlay\<lparr>text_buffer := Some (text_at 0 100), text_flushing := True\<rparr>"
  note t1 = text_chain_stores_only_into_empty_slot
    [where X = sample_externals and overlay = ?occ and incoming = "text_at 200 100"
       and buffer = "text_at 200 100" and clip_start = 200 and cs = 200 and ce = 300]
  note t2 = text_chain_stores_only_into_empty_slot
    [where overlay = ?fl and buffer = "text_at 200 100" and clip_start = 200]
  note t3 = text_chain_stores_only_into_empty_slot
    [where overlay = linked_overlay and buffer = "text_at 200 100" and clip_start = 200]
  have h1: "text_buffer ?occ \<noteq> None" "\<not> text_flushing ?occ \<and> \<not> text_eos ?occ \<and>
    GST_BUFFER_TIMESTAMP_IS_VALID (text_at 200 100) \<and>
    gst_segment_clip sample_externals (text_segment ?occ) GST_FORMAT_TIME
      (GST_BUFFER_TIMESTAMP (text_at 200 100))
      (if GST_BUFFER_DURATION_IS_VALID (text_at 200 100)
       then GST_BUFFER_TIMESTAMP (text_at 200 100) + GST_BUFFER_DURATION (text_at 200 100)
       else GST_CLOCK_TIME_NONE) = Some (200, 300)"
    "(text_at 200 100)\<lparr>GST_BUFFER_TIMESTAMP := 200\<rparr> = text_at 200 100"
    by (simp_all add: sample_simps)
  have h2: "text_flushing ?fl" by simp
  have h3: "\<not> text_flushing linked_overlay" "text_buffer linked_overlay = None"
    by (simp_all add: sample_simps)
  from t1 h1 have a: "gst_base_text_overlay_text_chain sample_externals ?occ (text_at 200 100) =
     Waiting (text_at 200 100, 200) ?occ"
    by simp
  from t2 h2 have b: "text_chain_wake ?fl (text_at 200 100, 200) =
     Returned GST_FLOW_FLUSHING ?fl"
    by blast
  from t3 h3 have c: "\<exists>overlay'. text_chain_wake linked_overlay (text_at 200 100, 200) =
       Returned GST_FLOW_OK overlay' \<and>
      text_buffer overlay' = Some (text_at 200 100) \<and> need_render overlay' \<and>
      cond_broadcasts overlay' = Suc (cond_broadcasts linked_overlay)"
    by simp
  from a b c show ?thesis by (intro conjI)
qed

text \<open>
  C4. The text chain answers FLUSHING whenever the text flushing flag is set on entry
  (also when the EOS flag is set too), EOS when only the EOS flag is set, and for a
  stamped buffer that \<^verbatim>\<open>gst_segment_clip\<close> finds outside the text segment it answers
  OK and leaves the whole state, the slot included, as it was.
\<close>

theorem text_chain_flushing_eos_out_of_segment:
  "(text_flushing overlay \<longrightarrow>
      gst_base_text_overlay_text_chain X overlay buffer = Returned GST_FLOW_FLUSHING overlay) \<and>
   (\<not> text_flushing overlay \<and> text_eos overlay \<longrightarrow>
      gst_base_text_overlay_text_chain X overlay buffer = Returned GST_FLOW_EOS overlay) \<and>
   (\<not> text_flushing overlay \<and> \<not> text_eos overlay \<and> GST_BUFFER_TIMESTAMP_IS_VALID buffer \<and>
    gst_segment_clip X (text_segment overlay) GST_FORMAT_TIME (GST_BUFFER_TIMESTAMP buffer)
      (if GST_BUFFER_DURATION_IS_VALID buffer
       then GST_BUFFER_TIMESTAMP buffer + GST_BUFFER_DURATION buffer
       else GST_CLOCK_TIME_NONE) = None \<longrightarrow>
      gst_base_text_overlay_text_chain X overlay buffer = Returned GST_FLOW_OK overlay)"
  by (simp add: gst_base_text_overlay_text_chain_def Let_def)

theorem text_chain_flushing_eos_out_of_segment_witness:
  "gst_base_text_overlay_text_chain sample_externals
     (linked_overlay\<lparr>text_flushing := True, text_eos := True\<rparr>) (text_at 0 100) =
     Returned GST_FLOW_FLUSHING (linked_overlay\<lparr>text_flushing := True, text_eos := True\<rparr>) \<and>
   gst_base_text_overlay_text_chain sample_externals
     (linked_overlay\<lparr>text_eos := True\<rparr>) (text_at 0 100) =
     Returned GST_FLOW_EOS (linked_overlay\<lparr>text_eos := True\<rparr>) \<and>
   gst_base_text_overlay_text_chain sample_externals
     (linked_overlay\<lparr>text_segment := clipping_segment\<rparr>) (text_at 10 20) =
     Returned GST_FLOW_OK (linked_overlay\<lparr>text_segment := clipping_segment\<rparr>)"
proof -
  let ?f = "linked_overlay\<lparr>text_flushing := True, text_eos := True\<rparr>"
  let ?e = "linked_overlay\<lparr>text_eos := True\<rparr>"
  let ?c = "linked_overlay\<lparr>text_segment := clipping_segment\<rparr>"
  note t1 = text_chain_flushing_eos_out_of_segment
    [where X = sample_externals and overlay = ?f and buffer = "text_at 0 100"]
  note t2 = text_chain_flushing_eos_out_of_segment
    [where X = sample_externals and overlay = ?e and buffer = "text_at 0 100"]
  note t3 = text_chain_flushing_eos_out_of_segment
    [where X = sample_externals and overlay = ?c and buffer = "text_at 10 20"]
  have h1: "text_flushing ?f" by simp
  have h2: "\<not> text_flushing ?e \<and> text_eos ?e" by (simp add: sample_simps)
  have h3: "\<not> text_flushing ?c \<and> \<not> text_eos ?c \<and> GST_BUFFER_TIMESTAMP_IS_VALID (text_at 10 20) \<and>
    gst_segment_clip sample_externals (text_segment ?c) GST_FORMAT_TIME
      (GST_BUFFER_TIMESTAMP (text_at 10 20))
      (if GST_BUFFER_DURATION_IS_VALID (text_at 10 20)
       then GST_BUFFER_TIMESTAMP (text_at 10 20) + GST_BUFFER_DURATION (text_at 10 20)
       else GST_CLOCK_TIME_NONE) = None"
    by (simp add: sample_simps)
  from t1 h1 have a: "gst_base_text_overlay_text_chain sample_externals ?f (text_at 0 100) =
     Returned GST_FLOW_FLUSHING ?f" by blast
  from t2 h2 have b: "gst_base_text_overlay_text_chain sample_externals ?e (text_at 0 100) =
     Returned GST_FLOW_EOS ?e" by blast
  from t3 h3 have c: "gst_base_text_overlay_text_chain sample_externals ?c (text_at 10 20) =
     Returned GST_FLOW_OK ?c" by blast
  from a b c show ?thesis by (intro conjI)
qed

text \<open>
  C5 (as the claim states it, refuted). The claim speaks of a flush on either stream.
  A flush-stop on the video stream leaves a queued text buffer in the slot. A
  flush-start on the text stream wakes a video thread that waits for text, but that
  thread tests only the video flushing flag and waits again; likewise a flush-start on
  the video stream wakes a text thread that waits for the slot, and it waits again.
\<close>

theorem flush_on_the_other_stream:
  "text_buffer (gst_base_text_overlay_video_event sample_externals
     (linked_overlay\<lparr>text_buffer := Some (text_at 0 100)\<rparr>) VIDEO_EVENT_FLUSH_STOP) =
     Some (text_at 0 100) \<and>
   video_chain_loop sample_externals
     (gst_base_text_overlay_text_event sample_externals linked_overlay TEXT_EVENT_FLUSH_START)
     (locals_at 0 1000) =
     Waiting (locals_at 0 1000)
       (gst_base_text_overlay_text_event sample_externals linked_overlay TEXT_EVENT_FLUSH_START) \<and>
   text_chain_wake
     (gst_base_text_overlay_video_event sample_externals
        (linked_overlay\<lparr>text_buffer := Some (text_at 0 100)\<rparr>) VIDEO_EVENT_FLUSH_START)
     (text_at 200 100, 200) =
     Waiting (text_at 200 100, 200)
       (gst_base_text_overlay_video_event sample_externals
          (linked_overlay\<lparr>text_buffer := Some (text_at 0 100)\<rparr>) VIDEO_EVENT_FLUSH_START)"
  by (simp add: sample_simps chain_simps)

text \<open>
  C5 (amended). A flush-start sets the flushing flag of its own stream and broadcasts
  the condition once. The text thread woken after a flush-start on the text stream
  returns FLUSHING, and the video thread woken after a flush-start on the video stream
  returns FLUSHING. A flush-stop on the text stream clears the text flushing and EOS
  flags, empties the slot and re-initialises the text segment; a flush-stop on the
  video stream clears the video flushing and EOS flags and re-initialises the video
  segment, and leaves the slot as it is. The re-initialised segments are those that the
  change from READY to PAUSED sets up.
\<close>

theorem flush_start_stop_per_stream:
  "text_chain_wake (gst_base_text_overlay_text_event X overlay TEXT_EVENT_FLUSH_START) waiting =
     Returned GST_FLOW_FLUSHING
       (gst_base_text_overlay_text_event X overlay TEXT_EVENT_FLUSH_START) \<and>
   cond_broadcasts (gst_base_text_overlay_text_event X overlay TEXT_EVENT_FLUSH_START) =
     Suc (cond_broadcasts overlay) \<and>
   video_chain_loop X (gst_base_text_overlay_video_event X overlay VIDEO_EVENT_FLUSH_START) l =
     Returned GST_FLOW_FLUSHING
       (gst_base_text_overlay_video_event X overlay VIDEO_EVENT_FLUSH_START) \<and>
   cond_broadcasts (gst_base_text_overlay_video_event X overlay VIDEO_EVENT_FLUSH_START) =
     Suc (cond_broadcasts overlay) \<and>
   \<not> text_flushing (gst_base_text_overlay_text_event X overlay TEXT_EVENT_FLUSH_STOP) \<and>
   \<not> text_eos (gst_base_text_overlay_text_event X overlay TEXT_EVENT_FLUSH_STOP) \<and>
   text_buffer (gst_base_text_overlay_text_event X overlay TEXT_EVENT_FLUSH_STOP) = None \<and>
   text_segment (gst_base_text_overlay_text_event X overlay TEXT_EVENT_FLUSH_STOP) =
     gst_segment_init X GST_FORMAT_TIME \<and>
   \<not> video_flushing (gst_base_text_overlay_video_event X overlay VIDEO_EVENT_FLUSH_STOP) \<and>
   \<not> video_eos (gst_base_text_overlay_video_event X overlay VIDEO_EVENT_FLUSH_STOP) \<and>
   segment (gst_base_text_overlay_video_event X overlay VIDEO_EVENT_FLUSH_STOP) =
     gst_segment_init X GST_FORMAT_TIME \<and>
   text_buffer (gst_base_text_overlay_video_event X overlay VIDEO_EVENT_FLUSH_STOP) =
     text_buffer overlay \<and>
   text_segment (gst_base_text_overlay_change_state X overlay
                   GST_STATE_CHANGE_READY_TO_PAUSED False) =
     gst_segment_init X GST_FORMAT_TIME \<and>
   segment (gst_base_text_overlay_change_state X overlay
              GST_STATE_CHANGE_READY_TO_PAUSED False) =
     gst_segment_init X GST_FORMAT_TIME"
proof -
  have v: "wait_for_text_buf X (gst_base_text_overlay_video_event X overlay VIDEO_EVENT_FLUSH_START) l =
     Returned GST_FLOW_FLUSHING
       (gst_base_text_overlay_video_event X overlay VIDEO_EVENT_FLUSH_START)"
    by (simp add: wait_for_text_buf_def Let_def gst_base_text_overlay_video_event_def
          GST_BASE_TEXT_OVERLAY_BROADCAST_def)
  have v2: "video_chain_loop X (gst_base_text_overlay_video_event X overlay VIDEO_EVENT_FLUSH_START) l =
     Returned GST_FLOW_FLUSHING
       (gst_base_text_overlay_video_event X overlay VIDEO_EVENT_FLUSH_START)"
    by (subst video_chain_loop.simps) (simp add: v)
  show ?thesis
    using v2
    by (simp add: text_chain_wake_def gst_base_text_overlay_text_event_def
          gst_base_text_overlay_video_event_def gst_base_text_overlay_change_state_def
          GST_BASE_TEXT_OVERLAY_BROADCAST_def pop_text_eq Let_def)
qed

theorem flush_start_stop_per_stream_witness:
  "text_chain_wake
     (gst_base_text_overlay_text_event sample_externals
        (linked_overlay\<lparr>text_buffer := Some (text_at 0 100)\<rparr>) TEXT_EVENT_FLUSH_START)
     (text_at 200 100, 200) =
     Returned GST_FLOW_FLUSHING
       (gst_base_text_overlay_text_event sample_externals
          (linked_overlay\<lparr>text_buffer := Some (text_at 0 100)\<rparr>) TEXT_EVENT_FLUSH_START) \<and>
   video_chain_loop sample_externals
     (gst_base_text_overlay_video_event sample_externals
        (linked_overlay\<lparr>text_buffer := Some (text_at 0 100)\<rparr>) VIDEO_EVENT_FLUSH_START)
     (locals_at 0 1000) =
     Returned GST_FLOW_FLUSHING
       (gst_base_text_overlay_video_event sample_externals
          (linked_overlay\<lparr>text_buffer := Some (text_at 0 100)\<rparr>) VIDEO_EVENT_FLUSH_START) \<and>
   text_buffer (gst_base_text_overlay_text_event sample_externals
     (linked_overlay\<lparr>text_buffer := Some (text_at 0 100)\<rparr>) TEXT_EVENT_FLUSH_STOP) = None \<and>
   text_segment (gst_base_text_overlay_text_event sample_externals
     (linked_overlay\<lparr>text_buffer := Some (text_at 0 100)\<rparr>) TEXT_EVENT_FLUSH_STOP) =
     gst_segment_init sample_externals GST_FORMAT_TIME"
  using flush_start_stop_per_stream
    [where X = sample_externals and overlay = "linked_overlay\<lparr>text_buffer := Some (text_at 0 100)\<rparr>"
       and waiting = "(text_at 200 100, 200)" and l = "locals_at 0 1000"]
  by (intro conjI) blast+

text \<open>
  C6 (as the claim states it, refuted). The claim lets the frame pass without waiting only
  when the text segment's start or position running time exceeds the end \<open>ve\<close> of the
  frame. With the text position at 500 and a frame from 0 to 1000, text EOS is not set,
  waiting for text is enabled, and neither the start (0) nor the position (500) exceeds
  \<open>ve = 1000\<close>; yet the frame is pushed unmodified at once, because the code compares
  with the running time of the frame's timestamp.
\<close>

theorem no_wait_when_text_position_is_within_the_frame:
  "srcpad (overlay_of (gst_base_text_overlay_video_chain sample_externals
     (linked_overlay\<lparr>text_segment := (segment_init GST_FORMAT_TIME)\<lparr>seg_position := 500\<rparr>\<rparr>)
     (frame_at 0 1000))) = [Unmodified (frame_at 0 1000)] \<and>
   \<not> text_eos (linked_overlay\<lparr>text_segment := (segment_init GST_FORMAT_TIME)\<lparr>seg_position := 500\<rparr>\<rparr>) \<and>
   wait_text (linked_overlay\<lparr>text_segment := (segment_init GST_FORMAT_TIME)\<lparr>seg_position := 500\<rparr>\<rparr>) \<and>
   forward_to_running_time (segment_init GST_FORMAT_TIME) GST_FORMAT_TIME (0 + 1000) = 1000 \<and>
   forward_to_running_time ((segment_init GST_FORMAT_TIME)\<lparr>seg_position := 500\<rparr>)
     GST_FORMAT_TIME (seg_start ((segment_init GST_FORMAT_TIME)\<lparr>seg_position := 500\<rparr>)) = 0 \<and>
   forward_to_running_time ((segment_init GST_FORMAT_TIME)\<lparr>seg_position := 500\<rparr>)
     GST_FORMAT_TIME (seg_position ((segment_init GST_FORMAT_TIME)\<lparr>seg_position := 500\<rparr>)) = 500 \<and>
   \<not> (1000::guint64) < 0 \<and> \<not> (1000::guint64) < 500"
  by (simp add: sample_simps chain_simps)

text \<open>
  C6 (amended). A frame reaches the slot test with the text pad linked and the slot
  empty; \<open>vs\<close> is the running time of the frame's timestamp. The frame is pushed
  unmodified without waiting if and only if text EOS is set, or waiting for text is
  disabled, or the text segment is in time format and the running time of its start or
  of its position is valid and greater than \<open>vs\<close>. In every other case the thread waits
  on the condition with the state unchanged, and continues with the loop when woken.
\<close>

theorem empty_slot_wait_decision:
  assumes "\<not> video_flushing overlay" "\<not> video_eos overlay" "\<not> silent overlay"
    and "text_linked overlay"
    and "text_buffer overlay = None"
    and "vs = gst_segment_to_running_time X (segment overlay) GST_FORMAT_TIME
                (GST_BUFFER_TIMESTAMP (vc_buffer l))"
    and "text_start = gst_segment_to_running_time X (text_segment overlay) GST_FORMAT_TIME
                (seg_start (text_segment overlay))"
    and "text_position = gst_segment_to_running_time X (text_segment overlay) GST_FORMAT_TIME
                (seg_position (text_segment overlay))"
    and "no_wait \<longleftrightarrow>
           text_eos overlay \<or> \<not> wait_text overlay \<or>
           (seg_format (text_segment overlay) = GST_FORMAT_TIME \<and>
            ((GST_CLOCK_TIME_IS_VALID text_start \<and> vs < text_start) \<or>
             (GST_CLOCK_TIME_IS_VALID text_position \<and> vs < text_position)))"
  shows "(no_wait \<longrightarrow>
            video_chain_loop X overlay l =
              Returned (gst_pad_push X (Unmodified (vc_buffer l)))
                (update_position
                   (overlay\<lparr>srcpad := srcpad overlay @ [Unmodified (vc_buffer l)]\<rparr>)
                   (vc_clip_start l))) \<and>
         (\<not> no_wait \<longrightarrow> video_chain_loop X overlay l = Waiting l overlay)"
proof (intro conjI impI)
  assume n: no_wait
  have "wait_for_text_buf X overlay l =
              Returned (gst_pad_push X (Unmodified (vc_buffer l)))
                (update_position
                   (overlay\<lparr>srcpad := srcpad overlay @ [Unmodified (vc_buffer l)]\<rparr>)
                   (vc_clip_start l))"
    using assms n by (auto simp add: wait_for_text_buf_def Let_def pad_push_def)
  then show "video_chain_loop X overlay l =
              Returned (gst_pad_push X (Unmodified (vc_buffer l)))
                (update_position
                   (overlay\<lparr>srcpad := srcpad overlay @ [Unmodified (vc_buffer l)]\<rparr>)
                   (vc_clip_start l))"
    by (subst video_chain_loop.simps) simp
next
  assume n: "\<not> no_wait"
  have "wait_for_text_buf X overlay l = Waiting l overlay"
    using assms n by (auto simp add: wait_for_text_buf_def Let_def pad_push_def)
  then show "video_chain_loop X overlay l = Waiting l overlay"
    by (subst video_chain_loop.simps) simp
qed

theorem empty_slot_wait_decision_witness:
  "video_chain_loop sample_externals
     (linked_overlay\<lparr>text_segment := (segment_init GST_FORMAT_TIME)\<lparr>seg_position := 500\<rparr>\<rparr>)
     (locals_at 0 1000) =
     Returned GST_FLOW_OK
       (update_position
          (linked_overlay\<lparr>text_segment := (segment_init GST_FORMAT_TIME)\<lparr>seg_position := 500\<rparr>,
             srcpad := [] @ [Unmodified (frame_at 0 1000)]\<rparr>) 0) \<and>
   video_chain_loop sample_externals linked_overlay (locals_at 0 1000) =
     Waiting (locals_at 0 1000) linked_overlay"
proof -
  let ?a = "linked_overlay\<lparr>text_segment := (segment_init GST_FORMAT_TIME)\<lparr>seg_position := 500\<rparr>\<rparr>"
  let ?l = "locals_at 0 1000"
  have pa: "\<not> video_flushing ?a" "\<not> video_eos ?a" "\<not> silent ?a" "text_linked ?a"
    "text_buffer ?a = None"
    by (simp_all add: sample_simps)
  have pb: "\<not> video_flushing linked_overlay" "\<not> video_eos linked_overlay"
    "\<not> silent linked_overlay" "text_linked linked_overlay" "text_buffer linked_overlay = None"
    by (simp_all add: sample_simps)
  have ca: "True \<longleftrightarrow>
           text_eos ?a \<or> \<not> wait_text ?a \<or>
           (seg_format (text_segment ?a) = GST_FORMAT_TIME \<and>
            ((GST_CLOCK_TIME_IS_VALID
                (gst_segment_to_running_time sample_externals (text_segment ?a) GST_FORMAT_TIME
                   (seg_start (text_segment ?a))) \<and>
              gst_segment_to_running_time sample_externals (segment ?a) GST_FORMAT_TIME
                (GST_BUFFER_TIMESTAMP (vc_buffer ?l))
              < gst_segment_to_running_time sample_externals (text_segment ?a) GST_FORMAT_TIME
                   (seg_start (text_segment ?a))) \<or>
             (GST_CLOCK_TIME_IS_VALID
                (gst_segment_to_running_time sample_externals (text_segment ?a) GST_FORMAT_TIME
                   (seg_position (text_segment ?a))) \<and>
              gst_segment_to_running_time sample_externals (segment ?a) GST_FORMAT_TIME
                (GST_BUFFER_TIMESTAMP (vc_buffer ?l))
              < gst_segment_to_running_time sample_externals (text_segment ?a) GST_FORMAT_TIME
                   (seg_position (text_segment ?a)))))"
    by (simp add: sample_simps)
  have cb: "False \<longleftrightarrow>
           text_eos linked_overlay \<or> \<not> wait_text linked_overlay \<or>
           (seg_format (text_segment linked_overlay) = GST_FORMAT_TIME \<and>
            ((GST_CLOCK_TIME_IS_VALID
                (gst_segment_to_running_time sample_externals (text_segment linked_overlay)
                   GST_FORMAT_TIME (seg_start (text_segment linked_overlay))) \<and>
              gst_segment_to_running_time sample_externals (segment linked_overlay) GST_FORMAT_TIME
                (GST_BUFFER_TIMESTAMP (vc_buffer ?l))
              < gst_segment_to_running_time sample_externals (text_segment linked_overlay)
                   GST_FORMAT_TIME (seg_start (text_segment linked_overlay))) \<or>
             (GST_CLOCK_TIME_IS_VALID
                (gst_segment_to_running_time sample_externals (text_segment linked_overlay)
                   GST_FORMAT_TIME (seg_position (text_segment linked_overlay))) \<and>
              gst_segment_to_running_time sample_externals (segment linked_overlay) GST_FORMAT_TIME
                (GST_BUFFER_TIMESTAMP (vc_buffer ?l))
              < gst_segment_to_running_time sample_externals (text_segment linked_overlay)
                   GST_FORMAT_TIME (seg_position (text_segment linked_overlay)))))"
    by (simp add: sample_simps)
  note ta = empty_slot_wait_decision
    [where X = sample_externals and l = ?l and no_wait = True, OF pa refl refl refl ca]
  note tb = empty_slot_wait_decision
    [where X = sample_externals and l = ?l and no_wait = False, OF pb refl refl refl cb]
  have e: "gst_pad_push sample_externals (Unmodified (vc_buffer ?l)) = GST_FLOW_OK"
    "vc_buffer ?l = frame_at 0 1000" "vc_clip_start ?l = 0" "srcpad ?a = []"
    by (simp_all add: sample_simps)
  from ta e have a: "video_chain_loop sample_externals ?a ?l =
     Returned GST_FLOW_OK
       (update_position (?a\<lparr>srcpad := [] @ [Unmodified (frame_at 0 1000)]\<rparr>) 0)"
    by simp
  from tb have b: "video_chain_loop sample_externals linked_overlay ?l = Waiting ?l linked_overlay"
    by simp
  from a b show ?thesis by (intro conjI)
qed

text \<open>
  C7 (what the code does). For a text buffer with a valid timestamp that
  \<^verbatim>\<open>gst_segment_clip\<close> accepts with the clipped interval
  \<open>[clip_start, clip_stop)\<close>, pushed into an empty slot, the stored buffer carries
  \<open>clip_start\<close> as its timestamp and its duration unchanged: the branch that would
  set the duration to \<open>clip_stop - clip_start\<close> is the \<^verbatim>\<open>else\<close> of the timestamp test.
  With the text segment from 100 to 1000 and a buffer from 50 of duration 100, the
  clipped interval is \<open>[100, 150)\<close> and the stored buffer has timestamp 100 and duration
  100, not 50.
\<close>

theorem text_chain_clips_timestamp_only:
  assumes "\<not> text_flushing overlay" "\<not> text_eos overlay" "text_buffer overlay = None"
    and "GST_BUFFER_TIMESTAMP_IS_VALID buffer"
    and "gst_segment_clip X (text_segment overlay) GST_FORMAT_TIME (GST_BUFFER_TIMESTAMP buffer)
           (if GST_BUFFER_DURATION_IS_VALID buffer
            then GST_BUFFER_TIMESTAMP buffer + GST_BUFFER_DURATION buffer
            else GST_CLOCK_TIME_NONE) = Some (clip_start, clip_stop)"
  shows "\<exists>overlay'. gst_base_text_overlay_text_chain X overlay buffer =
            Returned GST_FLOW_OK overlay' \<and>
           text_buffer overlay' = Some (buffer\<lparr>GST_BUFFER_TIMESTAMP := clip_start\<rparr>) \<and>
           GST_BUFFER_DURATION (buffer\<lparr>GST_BUFFER_TIMESTAMP := clip_start\<rparr>) =
             GST_BUFFER_DURATION buffer"
  using assms
  by (simp add: gst_base_text_overlay_text_chain_def text_chain_queue_def Let_def
        GST_BASE_TEXT_OVERLAY_BROADCAST_def)

theorem text_chain_clips_timestamp_only_witness:
  "gst_segment_clip sample_externals clipping_segment GST_FORMAT_TIME 50 (50 + 100) =
     Some (100, 150) \<and>
   (\<exists>overlay'. gst_base_text_overlay_text_chain sample_externals
        (linked_overlay\<lparr>text_segment := clipping_segment\<rparr>) (text_at 50 100) =
        Returned GST_FLOW_OK overlay' \<and>
      text_buffer overlay' = Some (text_at 100 100)) \<and>
   GST_BUFFER_DURATION (text_at 100 100) \<noteq> 150 - 100"
proof -
  let ?c = "linked_overlay\<lparr>text_segment := clipping_segment\<rparr>"
  have h: "\<not> text_flushing ?c" "\<not> text_eos ?c" "text_buffer ?c = None"
    "GST_BUFFER_TIMESTAMP_IS_VALID (text_at 50 100)"
    "gst_segment_clip sample_externals (text_segment ?c) GST_FORMAT_TIME
       (GST_BUFFER_TIMESTAMP (text_at 50 100))
       (if GST_BUFFER_DURATION_IS_VALID (text_at 50 100)
        then GST_BUFFER_TIMESTAMP (text_at 50 100) + GST_BUFFER_DURATION (text_at 50 100)
        else GST_CLOCK_TIME_NONE) = Some (100, 150)"
    by (simp_all add: sample_simps)
  have e: "(text_at 50 100)\<lparr>GST_BUFFER_TIMESTAMP := 100\<rparr> = text_at 100 100"
    by (simp add: text_at_def)
  have a: "gst_segment_clip sample_externals clipping_segment GST_FORMAT_TIME 50 (50 + 100) =
     Some (100, 150)"
    by (simp add: sample_simps)
  have d: "GST_BUFFER_DURATION (text_at 100 100) \<noteq> 150 - 100"
    by (simp add: text_at_def)
  from text_chain_clips_timestamp_only[OF h] e
  have b: "\<exists>overlay'. gst_base_text_overlay_text_chain sample_externals ?c (text_at 50 100) =
        Returned GST_FLOW_OK overlay' \<and> text_buffer overlay' = Some (text_at 100 100)"
    by auto
  from a b d show ?thesis by (intro conjI)
qed

text \<open>
  C8. The property setter leaves \<^verbatim>\<open>need_render\<close> set for every property, and so
  does the text chain when it stores a buffer. \<^verbatim>\<open>gst_base_text_overlay_render_text\<close>
  leaves the flag clear; called with the flag clear it changes nothing, so rendering
  twice is rendering once. While the flag is clear a whole run of the video chain loop
  keeps the flag clear, the rendered image and the composition as they are, and the
  rasterizer is not called.
\<close>

theorem render_cache_dirty_flag:
  "need_render (gst_base_text_overlay_set_property X overlay setting) \<and>
   (text_buffer overlay = None \<longrightarrow>
      need_render (overlay_of (text_chain_queue overlay buffer clip_start))) \<and>
   \<not> need_render (gst_base_text_overlay_render_text X overlay content textlen) \<and>
   (\<not> need_render overlay \<longrightarrow>
      gst_base_text_overlay_render_text X overlay content textlen = overlay) \<and>
   gst_base_text_overlay_render_text X
     (gst_base_text_overlay_render_text X overlay content textlen) content' textlen' =
     gst_base_text_overlay_render_text X overlay content textlen \<and>
   (\<not> need_render overlay \<longrightarrow>
      \<not> need_render (overlay_of (video_chain_loop X overlay l)) \<and>
      rasterized (overlay_of (video_chain_loop X overlay l)) = rasterized overlay \<and>
      text_image (overlay_of (video_chain_loop X overlay l)) = text_image overlay \<and>
      composition (overlay_of (video_chain_loop X overlay l)) = composition overlay)"
proof (intro conjI impI)
  show "need_render (gst_base_text_overlay_set_property X overlay setting)"
    by (simp add: gst_base_text_overlay_set_property_def)
  have c: "\<not> need_render (gst_base_text_overlay_render_text X overlay content textlen)"
    for overlay content textlen
  proof (cases "need_render overlay")
    case True
    from render_text_dirty_shape [OF True, of X content textlen] show ?thesis by auto
  next
    case False
    then show ?thesis by (simp add: render_text_clean)
  qed
  show "\<not> need_render (gst_base_text_overlay_render_text X overlay content textlen)"
    by (rule c)
  show "gst_base_text_overlay_render_text X
     (gst_base_text_overlay_render_text X overlay content textlen) content' textlen' =
     gst_base_text_overlay_render_text X overlay content textlen"
    by (rule render_text_clean) (rule c)
next
  assume "text_buffer overlay = None"
  then show "need_render (overlay_of (text_chain_queue overlay buffer clip_start))"
    by (simp add: text_chain_queue_def Let_def GST_BASE_TEXT_OVERLAY_BROADCAST_def)
next
  assume "\<not> need_render overlay"
  then show "gst_base_text_overlay_render_text X overlay content textlen = overlay"
    by (rule render_text_clean)
next
  assume n: "\<not> need_render overlay"
  note k = loop_keeps_clean_cache[OF n, of X l]
  show "\<not> need_render (overlay_of (video_chain_loop X overlay l))" using k n by simp
  show "rasterized (overlay_of (video_chain_loop X overlay l)) = rasterized overlay"
    using k by simp
  show "text_image (overlay_of (video_chain_loop X overlay l)) = text_image overlay"
    using k by simp
  show "composition (overlay_of (video_chain_loop X overlay l)) = composition overlay"
    using k by simp
qed

theorem render_cache_dirty_flag_witness:
  "need_render (gst_base_text_overlay_set_property sample_externals
     (linked_overlay\<lparr>need_render := False\<rparr>) (PROP_XPAD 10)) \<and>
   rasterized (gst_base_text_overlay_render_text sample_externals linked_overlay (Some ''Hi'') 2) =
     [''Hi''] \<and>
   gst_base_text_overlay_render_text sample_externals
     (gst_base_text_overlay_render_text sample_externals linked_overlay (Some ''Hi'') 2)
     (Some ''Hi'') 2 =
     gst_base_text_overlay_render_text sample_externals linked_overlay (Some ''Hi'') 2 \<and>
   rasterized (overlay_of (video_chain_loop sample_externals
     ((gst_base_text_overlay_render_text sample_externals linked_overlay (Some ''Hi'') 2)
        \<lparr>text_buffer := Some (text_at 500 2000)\<rparr>) (locals_at 0 1000))) = [''Hi'']"
proof -
  let ?r = "gst_base_text_overlay_render_text sample_externals linked_overlay (Some ''Hi'') 2"
  let ?s = "?r\<lparr>text_buffer := Some (text_at 500 2000)\<rparr>"
  note t1 = render_cache_dirty_flag
    [where X = sample_externals and overlay = "linked_overlay\<lparr>need_render := False\<rparr>"
       and setting = "PROP_XPAD 10"]
  note t2 = render_cache_dirty_flag
    [where X = sample_externals and overlay = linked_overlay and content = "Some ''Hi''"
       and textlen = 2 and content' = "Some ''Hi''" and textlen' = 2]
  note t3 = render_cache_dirty_flag
    [where X = sample_externals and overlay = ?s and l = "locals_at 0 1000"]
  have r: "rasterized ?r = [''Hi'']"
    by (simp add: sample_simps chain_simps)
  have n: "\<not> need_render ?s" using t2 by simp
  have a: "need_render (gst_base_text_overlay_set_property sample_externals
     (linked_overlay\<lparr>need_render := False\<rparr>) (PROP_XPAD 10))"
    using t1 by blast
  have b: "gst_base_text_overlay_render_text sample_externals ?r (Some ''Hi'') 2 = ?r"
    using t2 by blast
  have c: "rasterized (overlay_of (video_chain_loop sample_externals ?s (locals_at 0 1000))) =
     rasterized ?s"
    using t3 n by blast
  from a r b c show ?thesis by simp
qed

text \<open>
  C9 (as the claim states it, refuted). The claim says that for every alignment mode and
  every combination of paddings, deltas, image size and frame size the position returned
  by \<^verbatim>\<open>gst_base_text_overlay_get_pos\<close> keeps the image within the frame. With the
  default paddings and deltas, left alignment, and a text image as wide as a frame of
  100 by 100, the function returns x = 25, and 25 + 100 exceeds 100: only the two
  positional modes clamp.
\<close>

theorem get_pos_left_exceeds_frame:
  "\<not> within_frame
       ((gst_base_text_overlay_init sample_externals)
          \<lparr>width := 100, height := 100, image_width := 100, image_height := 20,
           halign := GST_BASE_TEXT_OVERLAY_HALIGN_LEFT\<rparr>)
       (gst_base_text_overlay_get_pos sample_externals
          ((gst_base_text_overlay_init sample_externals)
             \<lparr>width := 100, height := 100, image_width := 100, image_height := 20,
              halign := GST_BASE_TEXT_OVERLAY_HALIGN_LEFT\<rparr>))"
  by (simp add: within_frame_def gst_base_text_overlay_get_pos_def
        gst_base_text_overlay_init_def Let_def)

text \<open>
  C9 (amended). When the image is not larger than the frame and, for the alignments
  that are computed from a padding (left, right, and every vertical mode but position
  and center; vertical rendering forces right and top), the padding lies between 0 and
  the frame size minus the image size, the position before the delta is added keeps the
  image within the frame. The delta is added afterwards, unclamped: the returned
  position is that position plus the delta.
\<close>

theorem get_pos_within_frame_before_delta:
  assumes "0 \<le> sint (image_width overlay)" "sint (image_width overlay) \<le> sint (width overlay)"
    and "0 \<le> sint (image_height overlay)" "sint (image_height overlay) \<le> sint (height overlay)"
    and "use_vertical_render overlay \<or> halign overlay = GST_BASE_TEXT_OVERLAY_HALIGN_LEFT \<or>
         halign overlay = GST_BASE_TEXT_OVERLAY_HALIGN_RIGHT \<Longrightarrow>
         0 \<le> sint (xpad overlay) \<and>
         sint (xpad overlay) + sint (image_width overlay) \<le> sint (width overlay)"
    and "use_vertical_render overlay \<or>
         (valign overlay \<noteq> GST_BASE_TEXT_OVERLAY_VALIGN_POS \<and>
          valign overlay \<noteq> GST_BASE_TEXT_OVERLAY_VALIGN_CENTER) \<Longrightarrow>
         0 \<le> sint (ypad overlay) \<and>
         sint (ypad overlay) + sint (image_height overlay) \<le> sint (height overlay)"
  shows "within_frame overlay
           (fst (gst_base_text_overlay_get_pos X overlay) - deltax overlay,
            snd (gst_base_text_overlay_get_pos X overlay) - deltay overlay)"
proof -
  let ?W = "width overlay" and ?H = "height overlay"
  let ?w = "image_width overlay" and ?h = "image_height overlay"
  note r = sint_gint_range[of ?W] sint_gint_range[of ?H] sint_gint_range[of ?w]
    sint_gint_range[of ?h] sint_gint_range[of "xpad overlay"] sint_gint_range[of "ypad overlay"]
  have dW: "sint (?W - ?w) = sint ?W - sint ?w"
    using assms(1,2) r by (simp add: sint_sub_nowrap)
  have dH: "sint (?H - ?h) = sint ?H - sint ?h"
    using assms(3,4) r by (simp add: sint_sub_nowrap)
  have cW: "0 \<le> sint (gint_div (?W - ?w) 2) \<and> sint (gint_div (?W - ?w) 2) + sint ?w \<le> sint ?W"
    using assms(1,2) dW by (simp add: sint_gint_half)
  have cH: "0 \<le> sint (gint_div (?H - ?h) 2) \<and> sint (gint_div (?H - ?h) 2) + sint ?h \<le> sint ?H"
    using assms(3,4) dH by (simp add: sint_gint_half)
  have x: "0 \<le> sint (fst (gst_base_text_overlay_get_pos X overlay) - deltax overlay) \<and>
           sint (fst (gst_base_text_overlay_get_pos X overlay) - deltax overlay) + sint ?w \<le> sint ?W"
  proof (cases "use_vertical_render overlay")
    case True
    then show ?thesis
      using assms(1,2,5) dW r
      by (simp add: gst_base_text_overlay_get_pos_def Let_def sint_sub_nowrap)
  next
    case False
    then show ?thesis
      using assms(1,2,5) dW r cW clamp_within[OF assms(1,2)]
      by (cases "halign overlay")
         (simp_all add: gst_base_text_overlay_get_pos_def Let_def sint_sub_nowrap word_sless_alt)
  qed
  have y: "0 \<le> sint (snd (gst_base_text_overlay_get_pos X overlay) - deltay overlay) \<and>
           sint (snd (gst_base_text_overlay_get_pos X overlay) - deltay overlay) + sint ?h \<le> sint ?H"
  proof (cases "use_vertical_render overlay")
    case True
    then show ?thesis
      using assms(3,4,6) dH r
      by (simp add: gst_base_text_overlay_get_pos_def Let_def)
  next
    case False
    then show ?thesis
      using assms(3,4,6) dH r cH clamp_within[OF assms(3,4)]
      by (cases "valign overlay")
         (simp_all add: gst_base_text_overlay_get_pos_def Let_def sint_sub_nowrap sint_add_nowrap)
  qed
  show ?thesis using x y by (simp add: within_frame_def)
qed

theorem get_pos_within_frame_before_delta_witness:
  "within_frame
     (linked_overlay\<lparr>image_width := 100, image_height := 20, deltax := 7, deltay := - 3,
        halign := GST_BASE_TEXT_OVERLAY_HALIGN_LEFT\<rparr>)
     (fst (gst_base_text_overlay_get_pos sample_externals
        (linked_overlay\<lparr>image_width := 100, image_height := 20, deltax := 7, deltay := - 3,
           halign := GST_BASE_TEXT_OVERLAY_HALIGN_LEFT\<rparr>)) - 7,
      snd (gst_base_text_overlay_get_pos sample_externals
        (linked_overlay\<lparr>image_width := 100, image_height := 20, deltax := 7, deltay := - 3,
           halign := GST_BASE_TEXT_OVERLAY_HALIGN_LEFT\<rparr>)) - (- 3))"
  using get_pos_within_frame_before_delta
    [of "linked_overlay\<lparr>image_width := 100, image_height := 20, deltax := 7, deltay := - 3,
           halign := GST_BASE_TEXT_OVERLAY_HALIGN_LEFT\<rparr>" sample_externals]
  by (simp add: linked_overlay_def gst_base_text_overlay_init_def)




end
